theory Spec2Isabelle
  imports Complex_Main
begin

section \<open>Values, strings, errors and log lines\<close>

text \<open>
  A Go \<open>interface{}\<close> value as the executor meets it: what \<open>json.Unmarshal\<close> produces
  (\<open>nil\<close>, \<open>bool\<close>, \<open>float64\<close>, \<open>string\<close>, \<open>[]interface{}\<close>,
  \<open>map[string]interface{}\<close>) and the \<open>map[interface{}]interface{}\<close> of a YAML decoder,
  which \<open>captureFieldFromData\<close> also accepts. A map is an association list; a lookup
  takes the first binding of a key.
\<close>

datatype jvalue =
    JNull
  | JBool bool
  | JNumber rat
  | JString string
  | JArray "jvalue list"
  | JObject "(string \<times> jvalue) list"
  | JAnyMap "(jvalue \<times> jvalue) list"

text \<open>
  The phases of an execution; \<open>PhaseNone\<close> is the zero value of the Go type, the empty
  string of a result whose phase was never set.
\<close>

datatype ExecutionPhase =
    PhaseNone
  | PhaseParamExtraction
  | PhasePreconditions
  | PhaseResources
  | PhasePostActions

datatype ExecutionStatus = StatusSuccess | StatusFailed

datatype APIErrorKind = KindTransport | KindStatus

text \<open>
  Formatted text is kept as the call that builds it: \<open>Sprintf f args\<close> is
  \<open>fmt.Sprintf(f, args...)\<close> (also the text of \<open>log.Infof(f, args...)\<close>), \<open>JoinS xs sep\<close>
  is \<open>strings.Join(xs, sep)\<close>, \<open>ErrorString e\<close> is \<open>e.Error()\<close>, \<open>Lit s\<close> is the Go
  string \<open>s\<close>. An argument is a string (\<open>S\<close>, \<open>G\<close>), a value printed with \<open>%v\<close>
  (\<open>V\<close>), a value whose type is printed with \<open>%T\<close> (\<open>T\<close>), an integer (\<open>D\<close>), a phase
  (\<open>P\<close>) or an error (\<open>E\<close>, for \<open>%v\<close> and \<open>%w\<close>).

  A Go \<open>error\<close> is \<open>Errorf f args\<close> for \<open>fmt.Errorf\<close>, \<open>ExecutorError phase step msg cause\<close>
  for \<open>NewExecutorError(phase, step, msg, cause)\<close>, \<open>APIError kind method url status body
  cause\<close> for the error of a failed API call, \<open>OtherError s\<close> for an error of a
  collaborator, and \<open>Panic s\<close> for a run-time panic.
\<close>

datatype fmtarg =
    S string
  | G gostring
  | V jvalue
  | T jvalue
  | D nat
  | P ExecutionPhase
  | E go_error
and gostring =
    Lit string
  | Sprintf string "fmtarg list"
  | JoinS "gostring list" string
  | ErrorString go_error
and go_error =
    Errorf string "fmtarg list"
  | ExecutorError ExecutionPhase string string "go_error option"
  | APIError APIErrorKind string string "int option" "string option" "go_error option"
  | OtherError string
  | Panic string

datatype log_level = LInfo | LWarning | LError

type_synonym log_entry = "log_level \<times> gostring"

section \<open>Configuration and result records\<close>

record Event =
  evt_ID :: string
  evt_Data :: string

record Response =
  resp_Body :: string
  resp_StatusCode :: int

record APICall =
  api_Method :: string
  api_URL :: string
  api_Headers :: "(string \<times> string) list"
  api_Body :: string

record LogAction =
  la_Message :: string
  la_Level :: string

record CaptureField =
  cap_Name :: string
  cap_Field :: string

record Condition =
  cond_Field :: string
  cond_Operator :: string
  cond_Value :: jvalue

record Precondition =
  pc_Name :: string
  pc_Log :: "LogAction option"
  pc_APICall :: "APICall option"
  pc_Capture :: "CaptureField list"
  pc_Conditions :: "Condition list"
  pc_Expression :: string

record EvaluationResult =
  ev_Field :: string
  ev_Operator :: string
  ev_ExpectedValue :: jvalue
  ev_FieldValue :: jvalue
  ev_Matched :: bool

record ConditionsResult =
  cr_Matched :: bool
  cr_Results :: "EvaluationResult list"

text \<open>\<open>cel_HasError\<close> is what the method \<open>HasError()\<close> of the CEL result returns.\<close>

record CELResult =
  cel_Matched :: bool
  cel_Value :: jvalue
  cel_HasError :: bool
  cel_ErrorReason :: string

record PreconditionResult =
  pr_Name :: string
  pr_Status :: ExecutionStatus
  pr_Matched :: bool
  pr_CapturedFields :: "string \<rightharpoonup> jvalue"
  pr_APICallMade :: bool
  pr_APIResponse :: "string option"
  pr_ConditionResults :: "EvaluationResult list"
  pr_CELResult :: "CELResult option"
  pr_Error :: "go_error option"

record PreconditionsOutcome =
  po_AllMatched :: bool
  po_Results :: "PreconditionResult list"
  po_Error :: "go_error option"
  po_NotMetReason :: gostring

record ExecutionError =
  ee_Phase :: ExecutionPhase
  ee_Step :: string
  ee_Message :: gostring

text \<open>
  The adapter metadata of the execution context. \<open>am_ExecutionError\<close> is the field
  \<open>Adapter.ExecutionError\<close> the executors assign; \<open>am_Error\<close> and \<open>am_Skipped\<close> hold the
  reason and message given to \<open>SetError\<close> and \<open>SetSkipped\<close>.
\<close>

record AdapterMetadata =
  am_ExecutionError :: "ExecutionError option"
  am_Error :: "(string \<times> gostring) option"
  am_Skipped :: "(string \<times> gostring) option"

datatype Evaluation =
    ConditionsEvaluation ExecutionPhase string bool "string \<rightharpoonup> EvaluationResult"
  | CELEvaluation ExecutionPhase string string bool

record ExecutionContext =
  ctx_EventData :: "(string \<times> jvalue) list"
  ctx_Params :: "string \<rightharpoonup> jvalue"
  ctx_Adapter :: AdapterMetadata
  ctx_Evaluations :: "Evaluation list"

section \<open>Collaborators\<close>

text \<open>
  The code the executors call that is taken as a parameter: the functions of other files
  and packages (\<open>extractConfigParams\<close>, \<open>addMetadataParams\<close>, \<open>ExecuteAPICall\<close>,
  \<open>ExecuteLogAction\<close>, the criteria evaluator with \<open>ToConditionDefs\<close>, the resource
  executor), the constructor and the methods \<open>SetError\<close> and \<open>SetSkipped\<close> of the
  execution context, the JSON codec of the Go library, and the recursive payload builder
  \<open>buildPayload\<close> of the post-action file, whose result no property below depends on.
  Every property holds for all of them. The types say what a collaborator may change:
  the API call, the log action, the evaluator and the payload builder read the
  execution context and leave it as it is; the parameter extraction, \<open>SetError\<close>,
  \<open>SetSkipped\<close> and the resource executor may change it.

  \<open>'w\<close> is the state of everything outside the process (the API server, the cluster); a
  collaborator that performs I/O takes and returns it. The log lists of the functions
  below hold the lines these functions write and the lines of \<open>ExecuteLogAction\<close> and
  \<open>buildPayload\<close>, in order; a line another collaborator writes is part of \<open>'w\<close>.
\<close>

record Resource =
  res_Name :: string
  res_Manifest :: jvalue

record ResourceResult =
  rr_Name :: string
  rr_Status :: ExecutionStatus
  rr_Error :: "go_error option"

record 'w env =
  extractConfigParams :: "ExecutionContext \<Rightarrow> 'w \<Rightarrow> go_error option \<times> ExecutionContext \<times> 'w"
  addMetadataParams :: "ExecutionContext \<Rightarrow> ExecutionContext"
  NewExecutionContext :: "Event \<Rightarrow> (string \<times> jvalue) list \<Rightarrow> ExecutionContext"
  SetError :: "string \<Rightarrow> gostring \<Rightarrow> ExecutionContext \<Rightarrow> ExecutionContext"
  SetSkipped :: "string \<Rightarrow> gostring \<Rightarrow> ExecutionContext \<Rightarrow> ExecutionContext"
  json_Unmarshal :: "string \<Rightarrow> go_error + (string \<times> jvalue) list"
  json_Marshal :: "jvalue \<Rightarrow> go_error + string"
  ExecuteAPICall ::
    "APICall \<Rightarrow> ExecutionContext \<Rightarrow> 'w \<Rightarrow> (Response option \<times> string \<times> go_error option) \<times> 'w"
  ExecuteLogAction :: "LogAction \<Rightarrow> ExecutionContext \<Rightarrow> log_entry list"
  EvaluateConditionsWithResult ::
    "(string \<rightharpoonup> jvalue) \<Rightarrow> Condition list \<Rightarrow> go_error + ConditionsResult"
  EvaluateCEL :: "(string \<rightharpoonup> jvalue) \<Rightarrow> string \<Rightarrow> go_error + CELResult"
  buildPayload ::
    "jvalue \<Rightarrow> ExecutionContext \<Rightarrow> (string \<rightharpoonup> jvalue) \<Rightarrow> (go_error + jvalue) \<times> log_entry list"
  ResourceExecutor_ExecuteAll ::
    "Resource list \<Rightarrow> ExecutionContext \<Rightarrow> 'w \<Rightarrow>
       (ResourceResult list option \<times> go_error option) \<times> ExecutionContext \<times> 'w"

text \<open>
  Modelled from the spec: the method \<open>IsSuccess\<close> of the response is not among the
  sources. Section 6: success is a status in the 2xx range.
\<close>

definition IsSuccess :: "Response \<Rightarrow> bool" where
  "IsSuccess resp = (200 \<le> resp_StatusCode resp \<and> resp_StatusCode resp < 300)"

text \<open>
  Modelled from the spec: \<open>ValidateAPIResponse\<close> is not among the sources. Section 4.7
  classifies the outcome of a call: a transport error gives an API error of kind
  transport with method, url and cause; a response whose status is not in the 2xx range
  gives one of kind status with method, url, status and body. A missing response with no
  error is refused as well: both callers read the response after a passed validation.
\<close>

definition ValidateAPIResponse ::
  "Response option \<Rightarrow> go_error option \<Rightarrow> string \<Rightarrow> string \<Rightarrow> go_error option" where
  "ValidateAPIResponse resp err method url =
     (case err of
        Some cause \<Rightarrow> Some (APIError KindTransport method url None None (Some cause))
      | None \<Rightarrow>
          (case resp of
             None \<Rightarrow> Some (APIError KindTransport method url None None None)
           | Some r \<Rightarrow>
               if IsSuccess r then None
               else Some (APIError KindStatus method url
                            (Some (resp_StatusCode r)) (Some (resp_Body r)) None)))"

section \<open>String helpers of the Go library\<close>

text \<open>\<open>strings.Split(s, sep)\<close> for a separator of one character.\<close>

fun Split :: "string \<Rightarrow> char \<Rightarrow> string list" where
  "Split [] sep = [[]]"
| "Split (c # cs) sep =
     (if c = sep then [] # Split cs sep
      else (case Split cs sep of
              [] \<Rightarrow> [[c]]
            | p # ps \<Rightarrow> (c # p) # ps))"

text \<open>\<open>strings.Join(elems, sep)\<close> on Go strings.\<close>

fun strings_Join :: "string list \<Rightarrow> string \<Rightarrow> string" where
  "strings_Join [] sep = []"
| "strings_Join [x] sep = x"
| "strings_Join (x # y # ys) sep = x @ sep @ strings_Join (y # ys) sep"

text \<open>
  \<open>strings.TrimSpace\<close>. A Go string is a sequence of bytes in UTF-8; the white space of
  Unicode that \<open>TrimSpace\<close> removes is listed by its encodings: the ASCII tab, line
  feed, vertical tab, form feed, carriage return and space, then U+0085, U+00A0, U+1680,
  U+2000 to U+200A, U+2028, U+2029, U+202F, U+205F and U+3000.
\<close>

definition spaceEncodings :: "string list" where
  "spaceEncodings =
     [[CHR 0x09], [CHR 0x0A], [CHR 0x0B], [CHR 0x0C], [CHR 0x0D], [CHR 0x20],
      [CHR 0xC2, CHR 0x85], [CHR 0xC2, CHR 0xA0],
      [CHR 0xE1, CHR 0x9A, CHR 0x80],
      [CHR 0xE2, CHR 0x80, CHR 0x80], [CHR 0xE2, CHR 0x80, CHR 0x81],
      [CHR 0xE2, CHR 0x80, CHR 0x82], [CHR 0xE2, CHR 0x80, CHR 0x83],
      [CHR 0xE2, CHR 0x80, CHR 0x84], [CHR 0xE2, CHR 0x80, CHR 0x85],
      [CHR 0xE2, CHR 0x80, CHR 0x86], [CHR 0xE2, CHR 0x80, CHR 0x87],
      [CHR 0xE2, CHR 0x80, CHR 0x88], [CHR 0xE2, CHR 0x80, CHR 0x89],
      [CHR 0xE2, CHR 0x80, CHR 0x8A],
      [CHR 0xE2, CHR 0x80, CHR 0xA8], [CHR 0xE2, CHR 0x80, CHR 0xA9],
      [CHR 0xE2, CHR 0x80, CHR 0xAF], [CHR 0xE2, CHR 0x81, CHR 0x9F],
      [CHR 0xE3, CHR 0x80, CHR 0x80]]"

text \<open>
  \<open>dropSpaces encs s\<close> removes from the front of \<open>s\<close> every leading occurrence of one of
  the byte sequences \<open>encs\<close>; \<open>TrimSpace\<close> does so at both ends, the end being the front
  of the reversed string.
\<close>

function dropSpaces :: "string list \<Rightarrow> string \<Rightarrow> string" where
  "dropSpaces encs s =
     (case find (\<lambda>e. e \<noteq> [] \<and> take (length e) s = e) encs of
        None \<Rightarrow> s
      | Some e \<Rightarrow> dropSpaces encs (drop (length e) s))"
  by pat_completeness auto
termination
proof (relation "measure (\<lambda>(encs, s). length s)")
  show "wf (measure (\<lambda>(encs, s). length s))" by simp
next
  fix encs :: "string list" and s e :: string
  assume "find (\<lambda>e. e \<noteq> [] \<and> take (length e) s = e) encs = Some e"
  then have ne: "e \<noteq> []" and tk: "take (length e) s = e"
    by (auto simp: find_Some_iff)
  have "length (take (length e) s) = min (length s) (length e)" by simp
  with tk have "length e \<le> length s" by simp
  with ne show "((encs, drop (length e) s), (encs, s)) \<in> measure (\<lambda>(encs, s). length s)"
    by (cases e) auto
qed

declare dropSpaces.simps [simp del]

definition TrimSpace :: "string \<Rightarrow> string" where
  "TrimSpace s =
     rev (dropSpaces (map rev spaceEncodings) (rev (dropSpaces spaceEncodings s)))"

section \<open>The precondition executor\<close>

text \<open>
  \<open>captureFieldFromData\<close>: the loop over the parts of the dotted path. \<open>parts\<close> is the
  whole split path and \<open>i\<close> the index of the part at the head of the remaining list, so
  that \<open>take (Suc i) parts\<close> is \<open>parts[:i+1]\<close>.
\<close>

fun captureFieldLoop :: "string list \<Rightarrow> nat \<Rightarrow> string list \<Rightarrow> jvalue \<Rightarrow> go_error + jvalue" where
  "captureFieldLoop parts i [] current = Inr current"
| "captureFieldLoop parts i (part # rest) current =
     (case current of
        JObject v \<Rightarrow>
          (case map_of v part of
             None \<Rightarrow>
               Inl (Errorf (''field '%s' not found at path '%s'' @ [CHR 0x27])
                      [S part, S (strings_Join (take (Suc i) parts) ''.'')])
           | Some val \<Rightarrow> captureFieldLoop parts (Suc i) rest val)
      | JAnyMap v \<Rightarrow>
          (case map_of v (JString part) of
             None \<Rightarrow>
               Inl (Errorf (''field '%s' not found at path '%s'' @ [CHR 0x27])
                      [S part, S (strings_Join (take (Suc i) parts) ''.'')])
           | Some val \<Rightarrow> captureFieldLoop parts (Suc i) rest val)
      | _ \<Rightarrow>
          Inl (Errorf ''cannot access field '%s': parent is not a map (got %T)''
                 [S part, T current]))"

definition captureFieldFromData :: "(string \<times> jvalue) list \<Rightarrow> string \<Rightarrow> go_error + jvalue" where
  "captureFieldFromData data path =
     (let parts = Split path (CHR ''.'') in captureFieldLoop parts 0 parts (JObject data))"

text \<open>
  The field a dotted path denotes, in the words of section 4.4 of the spec: the path is
  split on the dots, and at each step the current node must be a mapping that has the
  key; \<open>pathValue v keys\<close> is the value reached from \<open>v\<close>, and \<open>None\<close> when there is
  none. \<open>fieldAbsent data path\<close> says that the dotted field \<open>path\<close> is absent from the
  decoded body \<open>data\<close>. These two follow the spec, not \<open>captureFieldFromData\<close>.
\<close>

fun pathValue :: "jvalue \<Rightarrow> string list \<Rightarrow> jvalue option" where
  "pathValue v [] = Some v"
| "pathValue (JObject m) (k # ks) =
     (case map_of m k of
        None \<Rightarrow> None
      | Some v \<Rightarrow> pathValue v ks)"
| "pathValue (JAnyMap m) (k # ks) =
     (case map_of m (JString k) of
        None \<Rightarrow> None
      | Some v \<Rightarrow> pathValue v ks)"
| "pathValue v (k # ks) = None"

definition fieldAbsent :: "(string \<times> jvalue) list \<Rightarrow> string \<Rightarrow> bool" where
  "fieldAbsent data path = (pathValue (JObject data) (Split path (CHR ''.'')) = None)"

text \<open>\<open>formatConditionDetails\<close>.\<close>

definition formatConditionDetails :: "PreconditionResult \<Rightarrow> gostring" where
  "formatConditionDetails result =
     (let details =
        (case pr_CELResult result of
           None \<Rightarrow> []
         | Some cel \<Rightarrow>
             if cel_HasError cel then [Sprintf ''CEL error: %s'' [S (cel_ErrorReason cel)]]
             else [])
        @ map (\<lambda>condResult.
                 Sprintf ''%s %s %v (actual: %v)''
                   [S (ev_Field condResult), S (ev_Operator condResult),
                    V (ev_ExpectedValue condResult), V (ev_FieldValue condResult)])
              (filter (\<lambda>condResult. \<not> ev_Matched condResult) (pr_ConditionResults result))
      in if details = [] then Lit ''no specific details available''
         else JoinS details ''; '')"

text \<open>
  \<open>PreconditionExecutor.executeAPICall\<close>. The read of \<open>resp.Body\<close> after a passed
  validation panics on a nil response.
\<close>

definition PreconditionExecutor_executeAPICall ::
  "'w env \<Rightarrow> APICall \<Rightarrow> ExecutionContext \<Rightarrow> 'w \<Rightarrow> (go_error + string) \<times> 'w" where
  "PreconditionExecutor_executeAPICall env apiCall execCtx w =
     (case ExecuteAPICall env apiCall execCtx w of
        ((resp, url, err), w') \<Rightarrow>
          (case ValidateAPIResponse resp err (api_Method apiCall) url of
             Some validationErr \<Rightarrow> (Inl validationErr, w')
           | None \<Rightarrow>
               (case resp of
                  None \<Rightarrow> (Inl (Panic ''nil pointer dereference''), w')
                | Some r \<Rightarrow> (Inr (resp_Body r), w'))))"

text \<open>
  The capture loop of \<open>executePrecondition\<close> (the \<open>for _, capture := range precond.Capture\<close>
  of step 2): a failed capture writes a warning and goes on to the next entry, a
  successful one stores the value in \<open>result.CapturedFields\<close> and in \<open>execCtx.Params\<close>.
\<close>

fun captureFields ::
  "(string \<times> jvalue) list \<Rightarrow> CaptureField list \<Rightarrow> PreconditionResult \<Rightarrow> ExecutionContext \<Rightarrow>
     PreconditionResult \<times> ExecutionContext \<times> log_entry list" where
  "captureFields responseData [] result execCtx = (result, execCtx, [])"
| "captureFields responseData (capture # rest) result execCtx =
     (case captureFieldFromData responseData (cap_Field capture) of
        Inl err \<Rightarrow>
          (case captureFields responseData rest result execCtx of
             (result', execCtx', l) \<Rightarrow>
               (result', execCtx',
                (LWarning, Sprintf ''Failed to capture field '%s' as '%s': %v''
                             [S (cap_Field capture), S (cap_Name capture), E err]) # l))
      | Inr val \<Rightarrow>
          captureFields responseData rest
            (result\<lparr>pr_CapturedFields := (pr_CapturedFields result)(cap_Name capture \<mapsto> val)\<rparr>)
            (execCtx\<lparr>ctx_Params := (ctx_Params execCtx)(cap_Name capture \<mapsto> val)\<rparr>))"

text \<open>
  Modelled from the spec: the methods \<open>AddConditionsEvaluation\<close> and \<open>AddCELEvaluation\<close>
  of the execution context are not among the sources. Section 3 has \<open>evaluations\<close> as an
  append-only sequence of records tagged with phase, step name, matched flag and the
  per-field details or the CEL source.
\<close>

definition AddConditionsEvaluation ::
  "ExecutionPhase \<Rightarrow> string \<Rightarrow> bool \<Rightarrow> (string \<rightharpoonup> EvaluationResult) \<Rightarrow> ExecutionContext \<Rightarrow>
     ExecutionContext" where
  "AddConditionsEvaluation phase name matched fieldResults execCtx =
     execCtx\<lparr>ctx_Evaluations :=
       ctx_Evaluations execCtx @ [ConditionsEvaluation phase name matched fieldResults]\<rparr>"

definition AddCELEvaluation ::
  "ExecutionPhase \<Rightarrow> string \<Rightarrow> string \<Rightarrow> bool \<Rightarrow> ExecutionContext \<Rightarrow> ExecutionContext" where
  "AddCELEvaluation phase name expression matched execCtx =
     execCtx\<lparr>ctx_Evaluations :=
       ctx_Evaluations execCtx @ [CELEvaluation phase name expression matched]\<rparr>"

text \<open>
  The end of \<open>executePrecondition\<close>: the log line on \<open>result.Matched\<close> and the return of
  the result with a nil error.
\<close>

definition preconditionDone ::
  "Precondition \<Rightarrow> PreconditionResult \<Rightarrow> ExecutionContext \<Rightarrow>
     (PreconditionResult \<times> go_error option) \<times> ExecutionContext \<times> log_entry list" where
  "preconditionDone precond result execCtx =
     ((result, None), execCtx,
      [if pr_Matched result
       then (LInfo, Sprintf ''Precondition '%s' satisfied'' [S (pc_Name precond)])
       else (LWarning, Sprintf ''Precondition '%s' not satisfied'' [S (pc_Name precond)])])"

text \<open>
  Step 3 of \<open>executePrecondition\<close> (``Evaluate conditions''), from the creation of the
  evaluator on the current parameters to the return: structured conditions when there
  are any, else the CEL expression when it is not empty, else matched.
\<close>

definition evaluateConditions ::
  "'w env \<Rightarrow> Precondition \<Rightarrow> PreconditionResult \<Rightarrow> ExecutionContext \<Rightarrow>
     (PreconditionResult \<times> go_error option) \<times> ExecutionContext \<times> log_entry list" where
  "evaluateConditions env precond result execCtx =
     (if length (pc_Conditions precond) > 0 then
        (case EvaluateConditionsWithResult env (ctx_Params execCtx) (pc_Conditions precond) of
           Inl err \<Rightarrow>
             ((result\<lparr>pr_Status := StatusFailed, pr_Error := Some err\<rparr>,
               Some (ExecutorError PhasePreconditions (pc_Name precond)
                       ''condition evaluation failed'' (Some err))),
              execCtx, [])
         | Inr condResult \<Rightarrow>
             preconditionDone precond
               (result\<lparr>pr_Matched := cr_Matched condResult,
                        pr_ConditionResults := cr_Results condResult\<rparr>)
               (AddConditionsEvaluation PhasePreconditions (pc_Name precond)
                  (cr_Matched condResult)
                  (fold (\<lambda>cr fieldResults. fieldResults(ev_Field cr \<mapsto> cr))
                     (cr_Results condResult) Map.empty)
                  execCtx))
      else if pc_Expression precond \<noteq> [] then
        (case EvaluateCEL env (ctx_Params execCtx) (TrimSpace (pc_Expression precond)) of
           Inl err \<Rightarrow>
             ((result\<lparr>pr_Status := StatusFailed, pr_Error := Some err\<rparr>,
               Some (ExecutorError PhasePreconditions (pc_Name precond)
                       ''CEL expression evaluation failed'' (Some err))),
              execCtx, [])
         | Inr celResult \<Rightarrow>
             preconditionDone precond
               (result\<lparr>pr_Matched := cel_Matched celResult, pr_CELResult := Some celResult\<rparr>)
               (AddCELEvaluation PhasePreconditions (pc_Name precond) (pc_Expression precond)
                  (cel_Matched celResult) execCtx))
      else preconditionDone precond (result\<lparr>pr_Matched := True\<rparr>) execCtx)"

text \<open>
  \<open>executePrecondition\<close>. It returns the result and the error, the execution context as
  the call leaves it, the outside world, and the log lines written.
\<close>

definition setExecutionError ::
  "ExecutionPhase \<Rightarrow> string \<Rightarrow> gostring \<Rightarrow> ExecutionContext \<Rightarrow> ExecutionContext" where
  "setExecutionError phase step message execCtx =
     execCtx\<lparr>ctx_Adapter := (ctx_Adapter execCtx)\<lparr>am_ExecutionError :=
       Some \<lparr>ee_Phase = phase, ee_Step = step, ee_Message = message\<rparr>\<rparr>\<rparr>"

definition executePrecondition ::
  "'w env \<Rightarrow> Precondition \<Rightarrow> ExecutionContext \<Rightarrow> 'w \<Rightarrow>
     (PreconditionResult \<times> go_error option) \<times> ExecutionContext \<times> 'w \<times> log_entry list" where
  "executePrecondition env precond execCtx w =
     (let result = \<lparr>pr_Name = pc_Name precond, pr_Status = StatusSuccess, pr_Matched = False,
                     pr_CapturedFields = Map.empty, pr_APICallMade = False,
                     pr_APIResponse = None, pr_ConditionResults = [], pr_CELResult = None,
                     pr_Error = None\<rparr>;
          l0 = (LInfo, Sprintf ''Evaluating precondition: %s'' [S (pc_Name precond)])
               # (case pc_Log precond of
                    None \<Rightarrow> []
                  | Some a \<Rightarrow> ExecuteLogAction env a execCtx)
      in case pc_APICall precond of
           None \<Rightarrow>
             (case evaluateConditions env precond result execCtx of
                (r, execCtx', l) \<Rightarrow> (r, execCtx', w, l0 @ l))
         | Some apiCall \<Rightarrow>
             (case PreconditionExecutor_executeAPICall env apiCall execCtx w of
                (Inl err, w') \<Rightarrow>
                  ((result\<lparr>pr_Status := StatusFailed, pr_Error := Some err\<rparr>,
                    Some (ExecutorError PhasePreconditions (pc_Name precond)
                            ''API call failed'' (Some err))),
                   setExecutionError PhasePreconditions (pc_Name precond) (ErrorString err)
                     execCtx,
                   w', l0)
              | (Inr apiResult, w') \<Rightarrow>
                  (let result = result\<lparr>pr_APICallMade := True,
                                       pr_APIResponse := Some apiResult\<rparr>
                   in case json_Unmarshal env apiResult of
                        Inl err \<Rightarrow>
                          ((result\<lparr>pr_Status := StatusFailed,
                                    pr_Error := Some (Errorf
                                      ''failed to parse API response as JSON: %w'' [E err])\<rparr>,
                            Some (ExecutorError PhasePreconditions (pc_Name precond)
                                    ''failed to parse API response'' (Some err))),
                           setExecutionError PhasePreconditions (pc_Name precond)
                             (ErrorString err) execCtx,
                           w', l0)
                      | Inr responseData \<Rightarrow>
                          (case captureFields responseData (pc_Capture precond) result execCtx of
                             (result', execCtx', l1) \<Rightarrow>
                               (case evaluateConditions env precond result' execCtx' of
                                  (r, execCtx'', l2) \<Rightarrow> (r, execCtx'', w', l0 @ l1 @ l2))))))"

text \<open>
  \<open>PreconditionExecutor.ExecuteAll\<close>: the loop, with the results appended so far.
\<close>

fun PreconditionExecutor_loop ::
  "'w env \<Rightarrow> Precondition list \<Rightarrow> PreconditionResult list \<Rightarrow> ExecutionContext \<Rightarrow> 'w \<Rightarrow>
     PreconditionsOutcome \<times> ExecutionContext \<times> 'w \<times> log_entry list" where
  "PreconditionExecutor_loop env [] results execCtx w =
     (\<lparr>po_AllMatched = True, po_Results = results, po_Error = None,
       po_NotMetReason = Lit []\<rparr>, execCtx, w, [])"
| "PreconditionExecutor_loop env (precond # rest) results execCtx w =
     (case executePrecondition env precond execCtx w of
        ((result, err), execCtx', w', l) \<Rightarrow>
          (case err of
             Some e \<Rightarrow>
               (\<lparr>po_AllMatched = False, po_Results = results @ [result], po_Error = Some e,
                 po_NotMetReason = Lit []\<rparr>, execCtx', w', l)
           | None \<Rightarrow>
               if \<not> pr_Matched result then
                 (\<lparr>po_AllMatched = False, po_Results = results @ [result], po_Error = None,
                   po_NotMetReason =
                     Sprintf ''precondition '%s' not met: %s''
                       [S (pc_Name precond), G (formatConditionDetails result)]\<rparr>,
                  execCtx', w', l)
               else
                 (case PreconditionExecutor_loop env rest (results @ [result]) execCtx' w' of
                    (outcome, execCtx'', w'', l') \<Rightarrow> (outcome, execCtx'', w'', l @ l'))))"

definition PreconditionExecutor_ExecuteAll ::
  "'w env \<Rightarrow> Precondition list \<Rightarrow> ExecutionContext \<Rightarrow> 'w \<Rightarrow>
     PreconditionsOutcome \<times> ExecutionContext \<times> 'w \<times> log_entry list" where
  "PreconditionExecutor_ExecuteAll env preconditions execCtx w =
     PreconditionExecutor_loop env preconditions [] execCtx w"

section \<open>The post-action executor\<close>

record PostAction =
  pa_Name :: string
  pa_Log :: "LogAction option"
  pa_APICall :: "APICall option"

record Payload =
  pl_Name :: string
  pl_Build :: "jvalue option"
  pl_BuildRefContent :: "jvalue option"

record PostConfig =
  post_Payloads :: "Payload list"
  post_PostActions :: "PostAction list"

record PostActionResult =
  par_Name :: string
  par_Status :: ExecutionStatus
  par_APICallMade :: bool
  par_APIResponse :: "string option"
  par_HTTPStatus :: int
  par_Error :: "go_error option"

text \<open>
  \<open>buildPostPayloads\<close>: the loop over the payloads. The evaluator is created once, before
  the loop, on the execution context of that moment (\<open>evalCtx\<close>); \<open>buildPayload\<close> also
  reads the current parameters, which hold the payloads stored so far. The recursive
  \<open>buildPayload\<close> itself (with \<open>buildMapPayload\<close> and \<open>processValue\<close>) is the
  collaborator \<open>buildPayload env\<close>.
\<close>

fun buildPostPayloads_loop ::
  "'w env \<Rightarrow> ExecutionContext \<Rightarrow> Payload list \<Rightarrow> ExecutionContext \<Rightarrow>
     go_error option \<times> ExecutionContext \<times> log_entry list" where
  "buildPostPayloads_loop env evalCtx [] execCtx = (None, execCtx, [])"
| "buildPostPayloads_loop env evalCtx (payload # rest) execCtx =
     (case (case pl_Build payload of
              Some b \<Rightarrow> Some b
            | None \<Rightarrow> pl_BuildRefContent payload) of
        None \<Rightarrow>
          (Some (Errorf ''payload '%s' has neither Build nor BuildRefContent''
                   [S (pl_Name payload)]),
           execCtx, [])
      | Some buildDef \<Rightarrow>
          (case buildPayload env buildDef evalCtx (ctx_Params execCtx) of
             (Inl err, l) \<Rightarrow>
               (Some (Errorf ''failed to build payload '%s': %w'' [S (pl_Name payload), E err]),
                execCtx, l)
           | (Inr builtPayload, l) \<Rightarrow>
               (case json_Marshal env builtPayload of
                  Inl err \<Rightarrow>
                    (Some (Errorf ''failed to marshal payload '%s' to JSON: %w''
                             [S (pl_Name payload), E err]),
                     execCtx, l)
                | Inr jsonBytes \<Rightarrow>
                    (case buildPostPayloads_loop env evalCtx rest
                            (execCtx\<lparr>ctx_Params :=
                               (ctx_Params execCtx)(pl_Name payload \<mapsto> JString jsonBytes)\<rparr>) of
                       (err, execCtx', l') \<Rightarrow> (err, execCtx', l @ l')))))"

definition buildPostPayloads ::
  "'w env \<Rightarrow> Payload list \<Rightarrow> ExecutionContext \<Rightarrow>
     go_error option \<times> ExecutionContext \<times> log_entry list" where
  "buildPostPayloads env payloads execCtx = buildPostPayloads_loop env execCtx payloads execCtx"

text \<open>
  \<open>PostActionExecutor.executeAPICall\<close>: the call is recorded as made, the response
  details are copied whenever there is a response, and a failed validation marks the
  result failed.
\<close>

definition PostActionExecutor_executeAPICall ::
  "'w env \<Rightarrow> APICall \<Rightarrow> ExecutionContext \<Rightarrow> PostActionResult \<Rightarrow> 'w \<Rightarrow>
     (PostActionResult \<times> go_error option) \<times> 'w" where
  "PostActionExecutor_executeAPICall env apiCall execCtx result w =
     (case ExecuteAPICall env apiCall execCtx w of
        ((resp, url, err), w') \<Rightarrow>
          (let result = result\<lparr>par_APICallMade := True\<rparr>;
               result = (case resp of
                           None \<Rightarrow> result
                         | Some r \<Rightarrow> result\<lparr>par_APIResponse := Some (resp_Body r),
                                             par_HTTPStatus := resp_StatusCode r\<rparr>)
           in case ValidateAPIResponse resp err (api_Method apiCall) url of
                Some validationErr \<Rightarrow>
                  ((result\<lparr>par_Status := StatusFailed, par_Error := Some validationErr\<rparr>,
                    Some (ExecutorError PhasePostActions (par_Name result)
                            (if err = None \<and> (case resp of None \<Rightarrow> False
                                                | Some r \<Rightarrow> \<not> IsSuccess r)
                             then ''API call returned non-success status''
                             else ''API call failed'')
                            (Some validationErr))),
                   w')
              | None \<Rightarrow> ((result, None), w')))"

definition executePostAction ::
  "'w env \<Rightarrow> PostAction \<Rightarrow> ExecutionContext \<Rightarrow> 'w \<Rightarrow>
     (PostActionResult \<times> go_error option) \<times> 'w \<times> log_entry list" where
  "executePostAction env action execCtx w =
     (let result = \<lparr>par_Name = pa_Name action, par_Status = StatusSuccess,
                     par_APICallMade = False, par_APIResponse = None, par_HTTPStatus = 0,
                     par_Error = None\<rparr>;
          l0 = (LInfo, Sprintf ''Executing post action: %s'' [S (pa_Name action)])
               # (case pa_Log action of
                    None \<Rightarrow> []
                  | Some a \<Rightarrow> ExecuteLogAction env a execCtx);
          done = (LInfo, Sprintf ''Post action '%s' completed'' [S (pa_Name action)])
      in case pa_APICall action of
           None \<Rightarrow> ((result, None), w, l0 @ [done])
         | Some apiCall \<Rightarrow>
             (case PostActionExecutor_executeAPICall env apiCall execCtx result w of
                ((result', Some err), w') \<Rightarrow> ((result', Some err), w', l0)
              | ((result', None), w') \<Rightarrow> ((result', None), w', l0 @ [done])))"

text \<open>
  \<open>PostActionExecutor.ExecuteAll\<close>, step 2: the loop over the post actions, with the
  results appended so far. The first failure is logged, assigned to
  \<open>execCtx.Adapter.ExecutionError\<close> and ends the loop.
\<close>

fun PostActionExecutor_loop ::
  "'w env \<Rightarrow> PostAction list \<Rightarrow> PostActionResult list \<Rightarrow> ExecutionContext \<Rightarrow> 'w \<Rightarrow>
     (PostActionResult list \<times> go_error option) \<times> ExecutionContext \<times> 'w \<times> log_entry list" where
  "PostActionExecutor_loop env [] results execCtx w = ((results, None), execCtx, w, [])"
| "PostActionExecutor_loop env (action # rest) results execCtx w =
     (case executePostAction env action execCtx w of
        ((result, err), w', l) \<Rightarrow>
          (case err of
             Some e \<Rightarrow>
               ((results @ [result], Some e),
                setExecutionError PhasePostActions (pa_Name action) (ErrorString e) execCtx,
                w',
                l @ [(LError, Sprintf ''Post action '%s' failed: %v'' [S (pa_Name action), E e])])
           | None \<Rightarrow>
               (case PostActionExecutor_loop env rest (results @ [result]) execCtx w' of
                  (r, execCtx', w'', l') \<Rightarrow> (r, execCtx', w'', l @ l'))))"

definition PostActionExecutor_ExecuteAll ::
  "'w env \<Rightarrow> PostConfig option \<Rightarrow> ExecutionContext \<Rightarrow> 'w \<Rightarrow>
     (PostActionResult list \<times> go_error option) \<times> ExecutionContext \<times> 'w \<times> log_entry list" where
  "PostActionExecutor_ExecuteAll env postConfig execCtx w =
     (case postConfig of
        None \<Rightarrow> (([], None), execCtx, w, [])
      | Some pc \<Rightarrow>
          (case (if length (post_Payloads pc) > 0
                 then buildPostPayloads env (post_Payloads pc) execCtx
                 else (None, execCtx, [])) of
             (Some err, execCtx', l) \<Rightarrow>
               (([], Some (ExecutorError PhasePostActions ''build_payloads''
                            ''failed to build post payloads'' (Some err))),
                setExecutionError PhasePostActions ''build_payloads'' (ErrorString err) execCtx',
                w, l)
           | (None, execCtx', l) \<Rightarrow>
               (case PostActionExecutor_loop env (post_PostActions pc) [] execCtx' w of
                  (r, execCtx'', w', l') \<Rightarrow> (r, execCtx'', w', l @ l'))))"

section \<open>The executor\<close>

record AdapterConfig =
  cfg_Preconditions :: "Precondition list"
  cfg_Resources :: "Resource list"
  cfg_Post :: "PostConfig option"

text \<open>
  \<open>ExecutionResult\<close>. A slice field that was never assigned is \<open>None\<close> (the nil slice),
  and so is the pointer \<open>er_ExecutionContext\<close>. \<open>result.Params\<close> is the map object of
  \<open>execCtx.Params\<close> once it has been assigned, so at the return it shows the parameters
  as the last phase left them; a map that was never assigned reads as the empty map.
\<close>

record ExecutionResult =
  er_EventID :: string
  er_Phase :: ExecutionPhase
  er_Status :: ExecutionStatus
  er_ResourcesSkipped :: bool
  er_SkipReason :: gostring
  er_ErrorReason :: string
  er_Error :: "go_error option"
  er_Params :: "string \<rightharpoonup> jvalue"
  er_PreconditionResults :: "PreconditionResult list option"
  er_ResourceResults :: "ResourceResult list option"
  er_PostActionResults :: "PostActionResult list option"
  er_ExecutionContext :: "ExecutionContext option"

definition parseEventData :: "'w env \<Rightarrow> Event option \<Rightarrow> go_error + (string \<times> jvalue) list" where
  "parseEventData env evt =
     (case evt of
        None \<Rightarrow> Inr []
      | Some e \<Rightarrow>
          if length (evt_Data e) = 0 then Inr []
          else (case json_Unmarshal env (evt_Data e) of
                  Inl err \<Rightarrow> Inl (Errorf ''failed to parse event data as JSON: %w'' [E err])
                | Inr eventData \<Rightarrow> Inr eventData))"

definition executeParamExtraction ::
  "'w env \<Rightarrow> ExecutionContext \<Rightarrow> 'w \<Rightarrow> go_error option \<times> ExecutionContext \<times> 'w" where
  "executeParamExtraction env execCtx w =
     (case extractConfigParams env execCtx w of
        (Some err, execCtx', w') \<Rightarrow> (Some err, execCtx', w')
      | (None, execCtx', w') \<Rightarrow> (None, addMetadataParams env execCtx', w'))"

definition finishWithError ::
  "ExecutionResult \<Rightarrow> ExecutionContext \<Rightarrow> go_error \<Rightarrow> string \<Rightarrow>
     ExecutionResult \<times> log_entry list" where
  "finishWithError result execCtx err reason =
     (result\<lparr>er_Status := StatusFailed, er_Error := Some err, er_ErrorReason := reason,
              er_ExecutionContext := Some execCtx, er_Params := ctx_Params execCtx\<rparr>,
      [(LError, Sprintf ''Event execution failed: id=%s phase=%s reason=%s''
                  [S (er_EventID result), P (er_Phase result), S reason])])"

text \<open>
  Phase 2 of \<open>Execute\<close>: the preconditions are run and the outcome is written to the
  result; an execution error marks the result failed, an unmet precondition marks the
  resources as skipped.
\<close>

definition Execute_Preconditions ::
  "'w env \<Rightarrow> AdapterConfig \<Rightarrow> ExecutionResult \<Rightarrow> ExecutionContext \<Rightarrow> 'w \<Rightarrow>
     ExecutionResult \<times> ExecutionContext \<times> 'w \<times> log_entry list" where
  "Execute_Preconditions env config result execCtx w =
     (case PreconditionExecutor_ExecuteAll env (cfg_Preconditions config) execCtx w of
        (precondOutcome, execCtx', w', l) \<Rightarrow>
          (let result = result\<lparr>er_Phase := PhasePreconditions,
                               er_PreconditionResults := Some (po_Results precondOutcome)\<rparr>
           in case po_Error precondOutcome of
                Some e \<Rightarrow>
                  (result\<lparr>er_Status := StatusFailed, er_Error := Some e,
                           er_ErrorReason := ''precondition evaluation failed''\<rparr>,
                   SetError env ''PreconditionFailed'' (ErrorString e) execCtx', w',
                   l @ [(LError, Sprintf ''Precondition execution failed: %v'' [E e])])
              | None \<Rightarrow>
                  if \<not> po_AllMatched precondOutcome then
                    (result\<lparr>er_ResourcesSkipped := True,
                             er_SkipReason := po_NotMetReason precondOutcome\<rparr>,
                     SetSkipped env ''PreconditionNotMet'' (po_NotMetReason precondOutcome)
                       execCtx',
                     w',
                     l @ [(LInfo, Sprintf ''Preconditions not met, resources will be skipped: %s''
                                    [G (po_NotMetReason precondOutcome)])])
                  else
                    (result, execCtx', w',
                     l @ [(LInfo, Sprintf ''Preconditions completed: %d preconditions evaluated''
                                    [D (length (po_Results precondOutcome))])])))"

text \<open>
  Phase 3 of \<open>Execute\<close>: the resources are executed only when the status is still success
  and the resources are not skipped.
\<close>

definition Execute_Resources ::
  "'w env \<Rightarrow> AdapterConfig \<Rightarrow> ExecutionResult \<Rightarrow> ExecutionContext \<Rightarrow> 'w \<Rightarrow>
     ExecutionResult \<times> ExecutionContext \<times> 'w \<times> log_entry list" where
  "Execute_Resources env config result0 execCtx w =
     (let result = result0\<lparr>er_Phase := PhaseResources\<rparr>
      in if er_Status result = StatusSuccess \<and> \<not> er_ResourcesSkipped result then
           (case ResourceExecutor_ExecuteAll env (cfg_Resources config) execCtx w of
              ((resourceResults, err), execCtx', w') \<Rightarrow>
                (case err of
                   Some e \<Rightarrow>
                     (result\<lparr>er_ResourceResults := resourceResults, er_Status := StatusFailed,
                              er_Error := Some e,
                              er_ErrorReason := ''resource execution failed''\<rparr>,
                      SetError env ''ResourceFailed'' (ErrorString e) execCtx', w',
                      [(LError, Sprintf ''Resource execution failed: %v'' [E e])])
                 | None \<Rightarrow>
                     (result\<lparr>er_ResourceResults := resourceResults\<rparr>, execCtx', w',
                      [(LInfo, Sprintf ''Resources completed: %d resources processed''
                                 [D (case resourceResults of None \<Rightarrow> 0
                                     | Some rs \<Rightarrow> length rs)])])))
         else if er_ResourcesSkipped result then
           (result, execCtx, w,
            [(LInfo, Sprintf ''Resources skipped: %s'' [G (er_SkipReason result)])])
         else if er_Status result = StatusFailed then
           (result, execCtx, w, [(LInfo, Sprintf ''Resources skipped due to previous error'' [])])
         else (result, execCtx, w, []))"

text \<open>
  Phase 4 of \<open>Execute\<close> and the finalisation: the post actions are executed whatever the
  earlier phases left, the execution context is attached, and the closing line is
  logged.
\<close>

definition Execute_PostActions ::
  "'w env \<Rightarrow> AdapterConfig \<Rightarrow> ExecutionResult \<Rightarrow> ExecutionContext \<Rightarrow> 'w \<Rightarrow>
     ExecutionResult \<times> 'w \<times> log_entry list" where
  "Execute_PostActions env config result0 execCtx w =
     (case PostActionExecutor_ExecuteAll env (cfg_Post config) execCtx w of
        ((postResults, err), execCtx', w', l) \<Rightarrow>
          (let result = result0\<lparr>er_Phase := PhasePostActions,
                                er_PostActionResults := Some postResults\<rparr>;
               (result, l1) =
                 (case err of
                    Some e \<Rightarrow>
                      (result\<lparr>er_Status := StatusFailed, er_Error := Some e,
                               er_ErrorReason := ''post action execution failed''\<rparr>,
                       [(LError, Sprintf ''Post action execution failed: %v'' [E e])])
                  | None \<Rightarrow>
                      (result,
                       [(LInfo, Sprintf ''Post actions completed: %d actions executed''
                                  [D (length postResults)])]));
               result = result\<lparr>er_ExecutionContext := Some execCtx',
                                er_Params := ctx_Params execCtx'\<rparr>;
               l2 = (if er_Status result = StatusSuccess then
                       (if er_ResourcesSkipped result then
                          [(LInfo, Sprintf
                              ''Event execution completed successfully (resources skipped): id=%s reason=%s''
                              [S (er_EventID result), G (er_SkipReason result)])]
                        else
                          [(LInfo, Sprintf ''Event execution completed successfully: id=%s''
                                     [S (er_EventID result)])])
                     else
                       [(LError, Sprintf ''Event execution failed: id=%s phase=%s reason=%s''
                                   [S (er_EventID result), P (er_Phase result),
                                    S (er_ErrorReason result)])])
           in (result, w', l @ l1 @ l2)))"

text \<open>
  \<open>Execute\<close>. A nil event and an event whose data does not parse return at once; a failed
  parameter extraction returns through \<open>finishWithError\<close>; otherwise the phases 2, 3
  and 4 follow one another. \<open>zero\<close> is the result with no field set; every result that
  is returned sets the status.
\<close>

definition Execute ::
  "'w env \<Rightarrow> AdapterConfig \<Rightarrow> Event option \<Rightarrow> 'w \<Rightarrow> ExecutionResult \<times> 'w \<times> log_entry list" where
  "Execute env config evt w =
     (let zero = \<lparr>er_EventID = [], er_Phase = PhaseNone, er_Status = StatusFailed,
                   er_ResourcesSkipped = False, er_SkipReason = Lit [], er_ErrorReason = [],
                   er_Error = None, er_Params = Map.empty, er_PreconditionResults = None,
                   er_ResourceResults = None, er_PostActionResults = None,
                   er_ExecutionContext = None\<rparr>
      in case evt of
           None \<Rightarrow>
             (zero\<lparr>er_Status := StatusFailed,
                    er_Error := Some (ExecutorError PhaseParamExtraction ''init''
                                        ''event is required'' None),
                    er_ErrorReason := ''nil event received''\<rparr>,
              w, [])
         | Some e \<Rightarrow>
             (case parseEventData env evt of
                Inl err \<Rightarrow>
                  (zero\<lparr>er_EventID := evt_ID e, er_Status := StatusFailed,
                         er_Phase := PhaseParamExtraction,
                         er_Error := Some (ExecutorError PhaseParamExtraction ''parse_event''
                                             ''failed to parse event data'' (Some err)),
                         er_ErrorReason := ''event data parsing failed''\<rparr>,
                   w, [])
              | Inr eventData \<Rightarrow>
                  (let execCtx = NewExecutionContext env e eventData;
                       result = zero\<lparr>er_EventID := evt_ID e, er_Status := StatusSuccess,
                                     er_Phase := PhaseParamExtraction\<rparr>;
                       l0 = [(LInfo, Sprintf ''Starting event execution: id=%s'' [S (evt_ID e)])]
                   in case executeParamExtraction env execCtx w of
                        (Some err, execCtx1, w1) \<Rightarrow>
                          (case finishWithError result execCtx1 err
                                  ''parameter extraction failed'' of
                             (result', l) \<Rightarrow> (result', w1, l0 @ l))
                      | (None, execCtx1, w1) \<Rightarrow>
                          (let l1 = [(LInfo, Sprintf
                                        ''Parameter extraction completed: extracted %d params''
                                        [D (card (dom (ctx_Params execCtx1)))])]
                           in case Execute_Preconditions env config
                                     (result\<lparr>er_Params := ctx_Params execCtx1\<rparr>) execCtx1 w1 of
                                (result2, execCtx2, w2, l2) \<Rightarrow>
                                  (case Execute_Resources env config result2 execCtx2 w2 of
                                     (result3, execCtx3, w3, l3) \<Rightarrow>
                                       (case Execute_PostActions env config result3 execCtx3 w3 of
                                          (result4, w4, l4) \<Rightarrow>
                                            (result4, w4, l0 @ l1 @ l2 @ l3 @ l4)))))))"

text \<open>
  The handler of \<open>CreateHandler\<close>: what it returns to the broker (\<open>None\<close> is the nil
  error, the acknowledgement), with the outside world and the log lines of the run.
\<close>

definition CreateHandler ::
  "'w env \<Rightarrow> AdapterConfig \<Rightarrow> Event option \<Rightarrow> 'w \<Rightarrow> go_error option \<times> 'w \<times> log_entry list" where
  "CreateHandler env config evt w =
     (case Execute env config evt w of
        (result, w', l) \<Rightarrow>
          ((if er_Status result = StatusFailed then
              (if er_Phase result = PhaseParamExtraction then None else er_Error result)
            else None),
           w', l))"

text \<open>
  The result \<open>Execute\<close> holds when parameter extraction has succeeded and phase 2 begins.
\<close>

definition initialResult :: "Event \<Rightarrow> ExecutionContext \<Rightarrow> ExecutionResult" where
  "initialResult e execCtx =
     \<lparr>er_EventID = evt_ID e, er_Phase = PhaseParamExtraction, er_Status = StatusSuccess,
      er_ResourcesSkipped = False, er_SkipReason = Lit [], er_ErrorReason = [],
      er_Error = None, er_Params = ctx_Params execCtx, er_PreconditionResults = None,
      er_ResourceResults = None, er_PostActionResults = None, er_ExecutionContext = None\<rparr>"

section \<open>A concrete adapter\<close>

text \<open>
  A small adapter on which the executor can be run. The outside world is the number of
  API calls and resource applications made so far. The API answers \<open>/status\<close> with 200
  and a body that decodes to \<open>{status: ready}\<close>, \<open>/report\<close> with 200, refuses the
  connection on \<open>/down\<close> and answers anything else with 404. Parameter extraction needs
  the field \<open>id\<close> of the event data and binds it to \<open>clusterId\<close>.
\<close>

definition demo_ctx :: ExecutionContext where
  "demo_ctx =
     \<lparr>ctx_EventData = [], ctx_Params = Map.empty,
      ctx_Adapter = \<lparr>am_ExecutionError = None, am_Error = None, am_Skipped = None\<rparr>,
      ctx_Evaluations = []\<rparr>"

definition demo_env :: "nat env" where
  "demo_env =
     \<lparr>extractConfigParams =
        (\<lambda>c w. case map_of (ctx_EventData c) ''id'' of
                  None \<Rightarrow> (Some (OtherError ''required parameter id is missing''), c, w)
                | Some v \<Rightarrow> (None, c\<lparr>ctx_Params := (ctx_Params c)(''clusterId'' \<mapsto> v)\<rparr>, w)),
      addMetadataParams = (\<lambda>c. c),
      NewExecutionContext = (\<lambda>e d. demo_ctx\<lparr>ctx_EventData := d\<rparr>),
      SetError =
        (\<lambda>reason msg c. c\<lparr>ctx_Adapter := (ctx_Adapter c)\<lparr>am_Error := Some (reason, msg)\<rparr>\<rparr>),
      SetSkipped =
        (\<lambda>reason msg c. c\<lparr>ctx_Adapter := (ctx_Adapter c)\<lparr>am_Skipped := Some (reason, msg)\<rparr>\<rparr>),
      json_Unmarshal =
        (\<lambda>s. if s = ''{status:ready}'' then Inr [(''status'', JString ''ready'')]
             else if s = ''{id:c-1}'' then Inr [(''id'', JString ''c-1'')]
             else if s = ''{}'' then Inr []
             else Inl (OtherError ''invalid character'')),
      json_Marshal = (\<lambda>v. Inr ''{}''),
      ExecuteAPICall =
        (\<lambda>a c w.
           ((if api_URL a = ''/down''
             then (None, ''/down'', Some (OtherError ''connection refused''))
             else if api_URL a = ''/status''
             then (Some \<lparr>resp_Body = ''{status:ready}'', resp_StatusCode = 200\<rparr>,
                   ''/status'', None)
             else if api_URL a = ''/report''
             then (Some \<lparr>resp_Body = ''{}'', resp_StatusCode = 200\<rparr>, ''/report'', None)
             else (Some \<lparr>resp_Body = ''not found'', resp_StatusCode = 404\<rparr>,
                   api_URL a, None)),
            Suc w)),
      ExecuteLogAction = (\<lambda>a c. [(LInfo, Lit (la_Message a))]),
      EvaluateConditionsWithResult =
        (\<lambda>params conds.
           (let rs = map (\<lambda>cd. \<lparr>ev_Field = cond_Field cd, ev_Operator = cond_Operator cd,
                                 ev_ExpectedValue = cond_Value cd,
                                 ev_FieldValue = (case params (cond_Field cd) of
                                                    None \<Rightarrow> JNull
                                                  | Some v \<Rightarrow> v),
                                 ev_Matched = (params (cond_Field cd) = Some (cond_Value cd))\<rparr>)
                         conds
            in Inr \<lparr>cr_Matched = list_all ev_Matched rs, cr_Results = rs\<rparr>)),
      EvaluateCEL =
        (\<lambda>params expr.
           Inr \<lparr>cel_Matched = (expr = ''true''), cel_Value = JBool (expr = ''true''),
                cel_HasError = False, cel_ErrorReason = []\<rparr>),
      buildPayload = (\<lambda>b c params. (Inr b, [])),
      ResourceExecutor_ExecuteAll =
        (\<lambda>rs c w.
           ((Some (map (\<lambda>r. \<lparr>rr_Name = res_Name r, rr_Status = StatusSuccess,
                               rr_Error = None\<rparr>) rs),
             None),
            c, w + length rs))\<rparr>"

definition demo_get :: "string \<Rightarrow> APICall" where
  "demo_get url = \<lparr>api_Method = ''GET'', api_URL = url, api_Headers = [], api_Body = []\<rparr>"

definition demo_A :: Precondition where
  "demo_A = \<lparr>pc_Name = ''A'', pc_Log = None, pc_APICall = None, pc_Capture = [],
             pc_Conditions = [], pc_Expression = []\<rparr>"

definition demo_B :: Precondition where
  "demo_B = \<lparr>pc_Name = ''B'', pc_Log = None, pc_APICall = None, pc_Capture = [],
             pc_Conditions = [], pc_Expression = ''false''\<rparr>"

definition demo_C :: Precondition where
  "demo_C = \<lparr>pc_Name = ''C'', pc_Log = None, pc_APICall = Some (demo_get ''/status''),
             pc_Capture = [\<lparr>cap_Name = ''clusterName'', cap_Field = ''name''\<rparr>,
                           \<lparr>cap_Name = ''status'', cap_Field = ''status''\<rparr>],
             pc_Conditions = [\<lparr>cond_Field = ''status'', cond_Operator = ''eq'',
                               cond_Value = JString ''ready''\<rparr>],
             pc_Expression = []\<rparr>"

definition demo_Down :: Precondition where
  "demo_Down = \<lparr>pc_Name = ''check'', pc_Log = None, pc_APICall = Some (demo_get ''/down''),
                pc_Capture = [], pc_Conditions = [], pc_Expression = []\<rparr>"

text \<open>
  A precondition that only fetches \<open>/status\<close>: it declares no capture, no structured
  condition and no expression.
\<close>

definition demo_Fetch :: Precondition where
  "demo_Fetch = \<lparr>pc_Name = ''fetch'', pc_Log = None, pc_APICall = Some (demo_get ''/status''),
                 pc_Capture = [], pc_Conditions = [], pc_Expression = []\<rparr>"

definition demo_report :: "string \<Rightarrow> PostAction" where
  "demo_report url =
     \<lparr>pa_Name = ''report'', pa_Log = None,
      pa_APICall = Some \<lparr>api_Method = ''POST'', api_URL = url, api_Headers = [],
                         api_Body = ''{{ .statusPayload }}''\<rparr>\<rparr>"

definition demo_config :: "Precondition list \<Rightarrow> string \<Rightarrow> AdapterConfig" where
  "demo_config preconditions url =
     \<lparr>cfg_Preconditions = preconditions,
      cfg_Resources = [\<lparr>res_Name = ''ns'', res_Manifest = JObject [(''kind'', JString ''Namespace'')]\<rparr>],
      cfg_Post = Some \<lparr>post_Payloads = [], post_PostActions = [demo_report url]\<rparr>\<rparr>"

text \<open>
  The configuration with the unreachable precondition and a post payload that declares
  neither \<open>Build\<close> nor \<open>BuildRefContent\<close>, so that the payload build fails.
\<close>

definition demo_config_nobuild :: AdapterConfig where
  "demo_config_nobuild =
     (demo_config [demo_Down] ''/report'')\<lparr>cfg_Post :=
        Some \<lparr>post_Payloads = [\<lparr>pl_Name = ''statusPayload'', pl_Build = None,
                                 pl_BuildRefContent = None\<rparr>],
              post_PostActions = [demo_report ''/report'']\<rparr>\<rparr>"

definition demo_event :: "string \<Rightarrow> Event" where
  "demo_event d = \<lparr>evt_ID = ''evt-1'', evt_Data = d\<rparr>"

text \<open>The execution context of the concrete adapter after parameter extraction.\<close>

definition demo_ctx1 :: ExecutionContext where
  "demo_ctx1 = demo_ctx\<lparr>ctx_EventData := [(''id'', JString ''c-1'')],
                        ctx_Params := [''clusterId'' \<mapsto> JString ''c-1'']\<rparr>"

section \<open>The ManifestWork wrapper\<close>

text \<open>
  A ManifestWork as \<open>buildManifestWork\<close> reads and builds it: the name, namespace, labels
  and annotations of the object metadata and the workload manifests of the spec. A
  resource to apply has a name and a manifest, which may be nil.
\<close>

record ManifestWork =
  mw_Name :: string
  mw_Namespace :: string
  mw_Labels :: "(string \<times> string) list"
  mw_Annotations :: "(string \<times> string) list"
  mw_Manifests :: "jvalue list"

record ResourceToApply =
  rta_Name :: string
  rta_Manifest :: "jvalue option"

text \<open>The manifests of the resources to apply, in order, nil entries skipped.\<close>

fun concreteManifests :: "ResourceToApply list \<Rightarrow> jvalue list" where
  "concreteManifests [] = []"
| "concreteManifests (r # rs) =
     (case rta_Manifest r of
        None \<Rightarrow> concreteManifests rs
      | Some m \<Rightarrow> m # concreteManifests rs)"

text \<open>
  Modelled from the spec: \<open>buildManifestWork\<close> is not among the sources (only its tests
  are). Section 4.8, step 3: the wrapper takes the metadata of the template (name, labels,
  annotations) verbatim, its namespace is the consumer id supplied at the call, and its
  workload manifests are the concrete manifests of the resources to apply when the list is
  not empty and at least one entry has a manifest, and the manifests of the template
  otherwise.
\<close>

definition buildManifestWork :: "ManifestWork \<Rightarrow> ResourceToApply list \<Rightarrow> string \<Rightarrow> ManifestWork" where
  "buildManifestWork template resources consumerName =
     (let work = template\<lparr>mw_Namespace := consumerName\<rparr>;
          manifests = concreteManifests resources
      in if length resources > 0 \<and> length manifests > 0
         then work\<lparr>mw_Manifests := manifests\<rparr>
         else work)"

definition demo_template :: ManifestWork where
  "demo_template =
     \<lparr>mw_Name = ''test-mw'', mw_Namespace = [], mw_Labels = [(''test'', ''true'')],
      mw_Annotations = [(''generation'', ''1'')],
      mw_Manifests = [JObject [(''kind'', JString ''Namespace'')],
                      JObject [(''kind'', JString ''ConfigMap'')]]\<rparr>"

section \<open>The deep copier on a store\<close>

text \<open>
  Go maps and slices are references: two values may share the storage they point to, and
  a write through one is seen through the other. The store is a list of objects, an
  address is an index into it, and a value is a scalar, the nil map, or the address of a
  map or of a slice. Allocation appends to the store.
\<close>

type_synonym addr = nat

datatype hval =
    HNull
  | HBool bool
  | HNumber rat
  | HString string
  | HNilMap
  | HMap addr
  | HSlice addr

datatype hobj = MapObj "(string \<times> hval) list" | SliceObj "hval list"

type_synonym heap = "hobj list"

text \<open>
  The tree a value denotes in a store, down to \<open>d\<close> levels of maps and slices:
  \<open>readout d h v = Some t\<close> says that \<open>v\<close> is a well-formed tree of depth at most \<open>d\<close>
  in \<open>h\<close> and that \<open>t\<close> is its content. Two values are deeply equal when they denote
  the same tree; the nil map and the empty map are different trees.
\<close>

datatype tree =
    TNull
  | TBool bool
  | TNumber rat
  | TString string
  | TNilMap
  | TMap "(string \<times> tree) list"
  | TSlice "tree list"

fun readout :: "nat \<Rightarrow> heap \<Rightarrow> hval \<Rightarrow> tree option"
and readoutEntries :: "nat \<Rightarrow> heap \<Rightarrow> (string \<times> hval) list \<Rightarrow> (string \<times> tree) list option"
and readoutElems :: "nat \<Rightarrow> heap \<Rightarrow> hval list \<Rightarrow> tree list option" where
  "readout d h HNull = Some TNull"
| "readout d h (HBool b) = Some (TBool b)"
| "readout d h (HNumber n) = Some (TNumber n)"
| "readout d h (HString s) = Some (TString s)"
| "readout d h HNilMap = Some TNilMap"
| "readout 0 h (HMap a) = None"
| "readout (Suc d) h (HMap a) =
     (if a < length h then
        (case h ! a of
           MapObj kvs \<Rightarrow> map_option TMap (readoutEntries d h kvs)
         | SliceObj vs \<Rightarrow> None)
      else None)"
| "readout 0 h (HSlice a) = None"
| "readout (Suc d) h (HSlice a) =
     (if a < length h then
        (case h ! a of
           SliceObj vs \<Rightarrow> map_option TSlice (readoutElems d h vs)
         | MapObj kvs \<Rightarrow> None)
      else None)"
| "readoutEntries d h [] = Some []"
| "readoutEntries d h ((k, v) # kvs) =
     (case readout d h v of
        None \<Rightarrow> None
      | Some t \<Rightarrow> map_option ((#) (k, t)) (readoutEntries d h kvs))"
| "readoutElems d h [] = Some []"
| "readoutElems d h (v # vs) =
     (case readout d h v of
        None \<Rightarrow> None
      | Some t \<Rightarrow> map_option ((#) t) (readoutElems d h vs))"

text \<open>
  Modelled from the spec: \<open>deepCopyMap\<close> is not among the sources (only its tests are).
  Section 4.3: maps and slices are copied into structurally independent storage, scalars
  are reproduced by value, the nil map is returned as nil. \<open>deepCopy d h v\<close> copies the
  value \<open>v\<close> of the store \<open>h\<close> into fresh objects and returns the copy with the extended
  store; \<open>d\<close> bounds the depth of the recursion, and a structure that is deeper, not
  well-formed or cyclic gives \<open>None\<close>.
\<close>

fun deepCopy :: "nat \<Rightarrow> heap \<Rightarrow> hval \<Rightarrow> (hval \<times> heap) option"
and deepCopyEntries :: "nat \<Rightarrow> heap \<Rightarrow> (string \<times> hval) list \<Rightarrow> ((string \<times> hval) list \<times> heap) option"
and deepCopyElems :: "nat \<Rightarrow> heap \<Rightarrow> hval list \<Rightarrow> (hval list \<times> heap) option" where
  "deepCopy d h HNull = Some (HNull, h)"
| "deepCopy d h (HBool b) = Some (HBool b, h)"
| "deepCopy d h (HNumber n) = Some (HNumber n, h)"
| "deepCopy d h (HString s) = Some (HString s, h)"
| "deepCopy d h HNilMap = Some (HNilMap, h)"
| "deepCopy 0 h (HMap a) = None"
| "deepCopy (Suc d) h (HMap a) =
     (if a < length h then
        (case h ! a of
           MapObj kvs \<Rightarrow>
             (case deepCopyEntries d h kvs of
                None \<Rightarrow> None
              | Some (kvs', h') \<Rightarrow> Some (HMap (length h'), h' @ [MapObj kvs']))
         | SliceObj vs \<Rightarrow> None)
      else None)"
| "deepCopy 0 h (HSlice a) = None"
| "deepCopy (Suc d) h (HSlice a) =
     (if a < length h then
        (case h ! a of
           SliceObj vs \<Rightarrow>
             (case deepCopyElems d h vs of
                None \<Rightarrow> None
              | Some (vs', h') \<Rightarrow> Some (HSlice (length h'), h' @ [SliceObj vs']))
         | MapObj kvs \<Rightarrow> None)
      else None)"
| "deepCopyEntries d h [] = Some ([], h)"
| "deepCopyEntries d h ((k, v) # kvs) =
     (case deepCopy d h v of
        None \<Rightarrow> None
      | Some (v', h1) \<Rightarrow>
          (case deepCopyEntries d h1 kvs of
             None \<Rightarrow> None
           | Some (kvs', h2) \<Rightarrow> Some ((k, v') # kvs', h2)))"
| "deepCopyElems d h [] = Some ([], h)"
| "deepCopyElems d h (v # vs) =
     (case deepCopy d h v of
        None \<Rightarrow> None
      | Some (v', h1) \<Rightarrow>
          (case deepCopyElems d h1 vs of
             None \<Rightarrow> None
           | Some (vs', h2) \<Rightarrow> Some (v' # vs', h2)))"

text \<open>
  References at or above an address \<open>L\<close>: \<open>val_ge L v\<close> for a value, \<open>region_closed L h\<close>
  when every object of \<open>h\<close> from \<open>L\<close> on holds only such references, and
  \<open>new_closed L h h'\<close> when \<open>h'\<close> extends \<open>h\<close> by objects that hold only such references.
\<close>

definition val_ge :: "nat \<Rightarrow> hval \<Rightarrow> bool" where
  "val_ge L v = (case v of HMap a \<Rightarrow> L \<le> a | HSlice a \<Rightarrow> L \<le> a | _ \<Rightarrow> True)"

definition obj_vals :: "hobj \<Rightarrow> hval list" where
  "obj_vals obj = (case obj of MapObj kvs \<Rightarrow> map snd kvs | SliceObj vs \<Rightarrow> vs)"

definition region_closed :: "nat \<Rightarrow> heap \<Rightarrow> bool" where
  "region_closed L h = (\<forall>a. L \<le> a \<and> a < length h \<longrightarrow> list_all (val_ge L) (obj_vals (h ! a)))"

definition new_closed :: "nat \<Rightarrow> heap \<Rightarrow> heap \<Rightarrow> bool" where
  "new_closed L h h' =
     ((\<exists>new. h' = h @ new) \<and>
      (\<forall>a. length h \<le> a \<and> a < length h' \<longrightarrow> list_all (val_ge L) (obj_vals (h' ! a))))"

text \<open>
  The objects of a value: \<open>reachable h v a\<close> when the object at address \<open>a\<close> is the map
  or slice \<open>v\<close> points to, or one nested in it at any depth. A write to a nested map
  entry or slice element of \<open>v\<close> replaces the object at such an address.
\<close>

inductive reachable :: "heap \<Rightarrow> hval \<Rightarrow> addr \<Rightarrow> bool" where
  map_here: "a < length h \<Longrightarrow> reachable h (HMap a) a"
| slice_here: "a < length h \<Longrightarrow> reachable h (HSlice a) a"
| map_below: "a < length h \<Longrightarrow> v \<in> set (obj_vals (h ! a)) \<Longrightarrow> reachable h v b \<Longrightarrow>
               reachable h (HMap a) b"
| slice_below: "a < length h \<Longrightarrow> v \<in> set (obj_vals (h ! a)) \<Longrightarrow> reachable h v b \<Longrightarrow>
               reachable h (HSlice a) b"

text \<open>
  Modelled from the spec: the resource step (\<open>executeResource\<close>) and the template renderer
  are not among the sources. Section 4.8: the step deep-copies the template, renders all
  string leaves (keys and values) of the copy, and hands the rendered tree to the apply
  collaborator. \<open>render\<close> is the renderer of section 4.2 on one string (\<open>None\<close> is
  its error); \<open>renderInPlace\<close> writes the rendered strings into the objects of the value
  and returns whether it succeeded, with the store.
\<close>

fun renderEntries :: "(string \<Rightarrow> string option) \<Rightarrow> (string \<times> hval) list \<Rightarrow> (string \<times> hval) list option" where
  "renderEntries f [] = Some []"
| "renderEntries f ((k, v) # kvs) =
     (case f k of
        None \<Rightarrow> None
      | Some k' \<Rightarrow>
          (case (case v of HString s \<Rightarrow> map_option HString (f s) | _ \<Rightarrow> Some v) of
             None \<Rightarrow> None
           | Some v' \<Rightarrow> map_option ((#) (k', v')) (renderEntries f kvs)))"

fun renderElems :: "(string \<Rightarrow> string option) \<Rightarrow> hval list \<Rightarrow> hval list option" where
  "renderElems f [] = Some []"
| "renderElems f (v # vs) =
     (case (case v of HString s \<Rightarrow> map_option HString (f s) | _ \<Rightarrow> Some v) of
        None \<Rightarrow> None
      | Some v' \<Rightarrow> map_option ((#) v') (renderElems f vs))"

fun renderInPlace :: "(string \<Rightarrow> string option) \<Rightarrow> nat \<Rightarrow> heap \<Rightarrow> hval \<Rightarrow> bool \<times> heap"
and renderValues :: "(string \<Rightarrow> string option) \<Rightarrow> nat \<Rightarrow> heap \<Rightarrow> hval list \<Rightarrow> bool \<times> heap" where
  "renderInPlace f d h HNull = (True, h)"
| "renderInPlace f d h (HBool b) = (True, h)"
| "renderInPlace f d h (HNumber n) = (True, h)"
| "renderInPlace f d h (HString s) = (True, h)"
| "renderInPlace f d h HNilMap = (True, h)"
| "renderInPlace f 0 h (HMap a) = (False, h)"
| "renderInPlace f (Suc d) h (HMap a) =
     (if a < length h then
        (case h ! a of
           MapObj kvs \<Rightarrow>
             (case renderEntries f kvs of
                None \<Rightarrow> (False, h)
              | Some kvs' \<Rightarrow> renderValues f d (h[a := MapObj kvs']) (map snd kvs'))
         | SliceObj vs \<Rightarrow> (False, h))
      else (False, h))"
| "renderInPlace f 0 h (HSlice a) = (False, h)"
| "renderInPlace f (Suc d) h (HSlice a) =
     (if a < length h then
        (case h ! a of
           SliceObj vs \<Rightarrow>
             (case renderElems f vs of
                None \<Rightarrow> (False, h)
              | Some vs' \<Rightarrow> renderValues f d (h[a := SliceObj vs']) vs')
         | MapObj kvs \<Rightarrow> (False, h))
      else (False, h))"
| "renderValues f d h [] = (True, h)"
| "renderValues f d h (v # vs) =
     (case renderInPlace f d h v of
        (False, h1) \<Rightarrow> (False, h1)
      | (True, h1) \<Rightarrow> renderValues f d h1 vs)"

definition executeResource ::
  "(string \<Rightarrow> string option) \<Rightarrow> (tree \<Rightarrow> 'w \<Rightarrow> go_error option \<times> 'w) \<Rightarrow> nat \<Rightarrow> heap \<Rightarrow> hval \<Rightarrow> 'w \<Rightarrow>
     (go_error + tree) \<times> heap \<times> 'w" where
  "executeResource render applyResource d h template w =
     (case deepCopy d h template of
        None \<Rightarrow> (Inl (OtherError ''failed to copy the template''), h, w)
      | Some (manifest, h1) \<Rightarrow>
          (case renderInPlace render d h1 manifest of
             (False, h2) \<Rightarrow> (Inl (OtherError ''failed to render the template''), h2, w)
           | (True, h2) \<Rightarrow>
               (case readout d h2 manifest of
                  None \<Rightarrow> (Inl (OtherError ''failed to render the template''), h2, w)
                | Some rendered \<Rightarrow>
                    (case applyResource rendered w of
                       (Some err, w') \<Rightarrow> (Inl err, h2, w')
                     | (None, w') \<Rightarrow> (Inr rendered, h2, w')))))"

text \<open>
  A template in a store, as in the tests of \<open>deepCopyMap\<close>: a map with two nested maps
  and a nil map; and the store after the copy.
\<close>

definition demo_heap :: heap where
  "demo_heap = [MapObj [(''value'', HString ''{{ .name }}'')],
                MapObj [(''level2'', HMap 0)],
                MapObj [(''level1'', HMap 1), (''items'', HNilMap)]]"

definition demo_tree :: tree where
  "demo_tree = TMap [(''level1'', TMap [(''level2'', TMap [(''value'', TString ''{{ .name }}'')])]),
                     (''items'', TNilMap)]"

definition demo_render :: "string \<Rightarrow> string option" where
  "demo_render s = (if s = ''{{ .name }}'' then Some ''c-1'' else Some s)"

definition demo_copied :: heap where
  "demo_copied = [MapObj [(''value'', HString ''{{ .name }}'')],
                  MapObj [(''level2'', HMap 0)],
                  MapObj [(''level1'', HMap 1), (''items'', HNilMap)],
                  MapObj [(''value'', HString ''{{ .name }}'')],
                  MapObj [(''level2'', HMap 3)],
                  MapObj [(''level1'', HMap 4), (''items'', HNilMap)]]"

section \<open>Unfolding rules\<close>

lemmas demo_defs =
  demo_env_def demo_ctx_def demo_get_def demo_A_def demo_B_def demo_C_def demo_Down_def
  demo_report_def demo_config_def demo_event_def

lemmas exec_defs =
  Execute_def Execute_Preconditions_def Execute_Resources_def Execute_PostActions_def
  finishWithError_def executeParamExtraction_def parseEventData_def
  PreconditionExecutor_ExecuteAll_def executePrecondition_def evaluateConditions_def
  preconditionDone_def PreconditionExecutor_executeAPICall_def ValidateAPIResponse_def
  IsSuccess_def setExecutionError_def PostActionExecutor_ExecuteAll_def executePostAction_def
  PostActionExecutor_executeAPICall_def buildPostPayloads_def captureFieldFromData_def
  AddConditionsEvaluation_def AddCELEvaluation_def TrimSpace_def spaceEncodings_def
  dropSpaces.simps
  formatConditionDetails_def

section \<open>The preconditions phase\<close>

lemma captureFields_append:
  "captureFields d (xs @ ys) r c =
     (case captureFields d xs r c of
        (r1, c1, l1) \<Rightarrow> (case captureFields d ys r1 c1 of (r2, c2, l2) \<Rightarrow> (r2, c2, l1 @ l2)))"
  by (induction xs arbitrary: r c) (auto split: sum.splits prod.splits)

lemma loop_not_met_reason_fst:
  assumes "po_Error (fst (PreconditionExecutor_loop env ps rs execCtx w)) = None"
      and "\<not> po_AllMatched (fst (PreconditionExecutor_loop env ps rs execCtx w))"
  shows "\<exists>p r. p \<in> set ps \<and>
           po_NotMetReason (fst (PreconditionExecutor_loop env ps rs execCtx w)) =
           Sprintf ''precondition '%s' not met: %s'' [S (pc_Name p), G (formatConditionDetails r)]"
  using assms
proof (induction ps arbitrary: rs execCtx w)
  case Nil
  then show ?case by auto
next
  case (Cons p ps)
  obtain r err c1 w1 l1 where ep: "executePrecondition env p execCtx w = ((r, err), c1, w1, l1)"
    by (metis prod_cases4 surj_pair)
  show ?case
  proof (cases err)
    case (Some e)
    with Cons.prems ep show ?thesis by auto
  next
    case None
    show ?thesis
    proof (cases "pr_Matched r")
      case False
      with ep None
      have "po_NotMetReason (fst (PreconditionExecutor_loop env (p # ps) rs execCtx w)) =
              Sprintf ''precondition '%s' not met: %s''
                [S (pc_Name p), G (formatConditionDetails r)]"
        by auto
      then show ?thesis by (intro exI[of _ p] exI[of _ r]) simp
    next
      case True
      with ep None
      have eq: "fst (PreconditionExecutor_loop env (p # ps) rs execCtx w) =
                fst (PreconditionExecutor_loop env ps (rs @ [r]) c1 w1)"
        by (simp split: prod.splits)
      from Cons.IH[of "rs @ [r]" c1 w1] Cons.prems eq show ?thesis by auto
    qed
  qed
qed

lemma loop_not_met_reason:
  assumes "PreconditionExecutor_loop env ps rs execCtx w = (outcome, execCtx', w', l)"
      and "po_Error outcome = None" and "\<not> po_AllMatched outcome"
  shows "\<exists>p r. p \<in> set ps \<and> po_NotMetReason outcome =
           Sprintf ''precondition '%s' not met: %s'' [S (pc_Name p), G (formatConditionDetails r)]"
  using loop_not_met_reason_fst[of env ps rs execCtx w] assms by simp

text \<open>
  C5. For preconditions \<open>[A, B, C]\<close> where \<open>A\<close> evaluates to matched and \<open>B\<close> to not
  matched, the phase stops at \<open>B\<close>: the outcome holds exactly the two result records of
  \<open>A\<close> and \<open>B\<close>, \<open>allMatched\<close> is false, the not-met reason names \<open>B\<close>, and the
  execution context, the outside world and the log are those \<open>B\<close> left, as for the list
  \<open>[A, B]\<close>: \<open>C\<close> is never evaluated.
\<close>

theorem C5_precondition_short_circuit:
  assumes A: "executePrecondition env A execCtx w = ((rA, None), ctxA, wA, lA)"
      and mA: "pr_Matched rA"
      and B: "executePrecondition env B ctxA wA = ((rB, None), ctxB, wB, lB)"
      and mB: "\<not> pr_Matched rB"
  shows "PreconditionExecutor_ExecuteAll env [A, B, C] execCtx w =
           (\<lparr>po_AllMatched = False, po_Results = [rA, rB], po_Error = None,
             po_NotMetReason =
               Sprintf ''precondition '%s' not met: %s''
                 [S (pc_Name B), G (formatConditionDetails rB)]\<rparr>,
            ctxB, wB, lA @ lB)
         \<and> PreconditionExecutor_ExecuteAll env [A, B, C] execCtx w =
           PreconditionExecutor_ExecuteAll env [A, B] execCtx w"
  using A mA B mB by (simp add: PreconditionExecutor_ExecuteAll_def)

theorem C5_witness:
  "pr_Matched (fst (fst (executePrecondition demo_env demo_A demo_ctx 0)))
   \<and> \<not> pr_Matched (fst (fst (executePrecondition demo_env demo_B demo_ctx 0)))
   \<and> map pr_Name (po_Results (fst (PreconditionExecutor_ExecuteAll demo_env
                                      [demo_A, demo_B, demo_C] demo_ctx 0))) = [''A'', ''B'']
   \<and> \<not> po_AllMatched (fst (PreconditionExecutor_ExecuteAll demo_env
                              [demo_A, demo_B, demo_C] demo_ctx 0))
   \<and> fst (snd (snd (PreconditionExecutor_ExecuteAll demo_env
                       [demo_A, demo_B, demo_C] demo_ctx 0))) = 0"
proof -
  define XA where "XA = executePrecondition demo_env demo_A demo_ctx 0"
  define XB where "XB = executePrecondition demo_env demo_B demo_ctx 0"
  have hA: "executePrecondition demo_env demo_A demo_ctx 0 =
              ((fst (fst XA), None), demo_ctx, 0, snd (snd (snd XA)))"
    unfolding XA_def by (simp add: demo_defs exec_defs)
  have mA: "pr_Matched (fst (fst XA))"
    unfolding XA_def by (simp add: demo_defs exec_defs)
  have hB: "executePrecondition demo_env demo_B demo_ctx 0 =
              ((fst (fst XB), None), fst (snd XB), 0, snd (snd (snd XB)))"
    unfolding XB_def by (simp add: demo_defs exec_defs)
  have mB: "\<not> pr_Matched (fst (fst XB))"
    unfolding XB_def by (simp add: demo_defs exec_defs)
  have nA: "pr_Name (fst (fst XA)) = ''A''" and nB: "pr_Name (fst (fst XB)) = ''B''"
    unfolding XA_def XB_def by (simp_all add: demo_defs exec_defs)
  from C5_precondition_short_circuit[OF hA mA hB mB, of demo_C] mA mB nA nB
  show ?thesis unfolding XA_def XB_def by simp
qed

text \<open>
  \<open>captureFieldFromData\<close> reads a dotted path as section 4.4 of the spec does: it returns
  a value exactly when the path denotes one, and an error when the field is absent.
\<close>

lemma captureFieldLoop_pathValue:
  "(captureFieldLoop parts i rest current = Inr v) = (pathValue current rest = Some v)"
proof (induction rest arbitrary: i current)
  case Nil
  show ?case by auto
next
  case (Cons part rest)
  show ?case by (cases current) (auto simp: Cons.IH split: option.splits)
qed

lemma captureFieldFromData_absent:
  assumes "fieldAbsent data path"
  shows "\<exists>err. captureFieldFromData data path = Inl err"
proof (cases "captureFieldFromData data path")
  case (Inl err)
  then show ?thesis by blast
next
  case (Inr v)
  then have "pathValue (JObject data) (Split path (CHR ''.'')) = Some v"
    by (simp add: captureFieldFromData_def Let_def captureFieldLoop_pathValue)
  with assms show ?thesis by (simp add: fieldAbsent_def)
qed

lemma executePrecondition_failed_capture:
  assumes api: "pc_APICall precond = Some apiCall"
      and call: "PreconditionExecutor_executeAPICall env apiCall execCtx w = (Inr body, w')"
      and parse: "json_Unmarshal env body = Inr responseData"
      and caps: "pc_Capture precond = before @ capture # after"
      and failed: "captureFieldFromData responseData (cap_Field capture) = Inl err"
  shows "\<exists>result e execCtx' l1 l2.
           executePrecondition env precond execCtx w =
             ((result, e), execCtx', w',
              l1 @ (LWarning, Sprintf ''Failed to capture field '%s' as '%s': %v''
                      [S (cap_Field capture), S (cap_Name capture), E err]) # l2)
         \<and> executePrecondition env (precond\<lparr>pc_Capture := before @ after\<rparr>) execCtx w =
             ((result, e), execCtx', w', l1 @ l2)"
proof -
  let ?warn = "(LWarning, Sprintf ''Failed to capture field '%s' as '%s': %v''
                      [S (cap_Field capture), S (cap_Name capture), E err])"
  let ?r0 = "\<lparr>pr_Name = pc_Name precond, pr_Status = StatusSuccess, pr_Matched = False,
               pr_CapturedFields = Map.empty, pr_APICallMade = True,
               pr_APIResponse = Some body, pr_ConditionResults = [], pr_CELResult = None,
               pr_Error = None\<rparr>"
  obtain r1 c1 lb where b: "captureFields responseData before ?r0 execCtx = (r1, c1, lb)"
    by (cases "captureFields responseData before ?r0 execCtx") auto
  obtain r2 c2 la where a: "captureFields responseData after r1 c1 = (r2, c2, la)"
    by (cases "captureFields responseData after r1 c1") auto
  have all_entries: "captureFields responseData (before @ capture # after) ?r0 execCtx =
                       (r2, c2, lb @ ?warn # la)"
    using b a failed by (simp add: captureFields_append)
  have other_entries: "captureFields responseData (before @ after) ?r0 execCtx = (r2, c2, lb @ la)"
    using b a by (simp add: captureFields_append)
  have ev_same: "evaluateConditions env (precond\<lparr>pc_Capture := before @ after\<rparr>) r2 c2 =
                 evaluateConditions env precond r2 c2"
    by (simp add: evaluateConditions_def preconditionDone_def split: sum.splits)
  obtain r e c3 l3 where ev: "evaluateConditions env precond r2 c2 = ((r, e), c3, l3)"
    by (cases "evaluateConditions env precond r2 c2") auto
  let ?l0 = "(LInfo, Sprintf ''Evaluating precondition: %s'' [S (pc_Name precond)])
               # (case pc_Log precond of None \<Rightarrow> [] | Some a \<Rightarrow> ExecuteLogAction env a execCtx)"
  have 1: "executePrecondition env precond execCtx w =
             ((r, e), c3, w', (?l0 @ lb) @ ?warn # (la @ l3))"
    using api call parse caps all_entries ev by (simp add: executePrecondition_def)
  have 2: "executePrecondition env (precond\<lparr>pc_Capture := before @ after\<rparr>) execCtx w =
             ((r, e), c3, w', (?l0 @ lb) @ (la @ l3))"
    using api call parse other_entries ev ev_same by (simp add: executePrecondition_def)
  from 1 2 show ?thesis by blast
qed

text \<open>
  C7. For a capture entry whose dotted source field is absent from the decoded response
  body (\<open>fieldAbsent\<close>, the reading of the path of section 4.4 of the spec),
  \<open>captureFieldFromData\<close> returns an error, and the entry is logged as a warning and has no
  other effect. On its own the entry leaves the result (its captured fields) and the
  execution context (its parameters) as they were and writes the one warning. In the
  precondition step, the result, the error, the execution context and the outside world
  are those of the step without that entry, and the log is that of the step without the
  entry with the warning inserted: the binding is set neither in the parameters nor in
  the captured fields, and the later capture entries and the evaluation of the
  conditions follow as usual.
\<close>

theorem C7_capture_failure_nonfatal:
  assumes api: "pc_APICall precond = Some apiCall"
      and call: "PreconditionExecutor_executeAPICall env apiCall execCtx w = (Inr body, w')"
      and parse: "json_Unmarshal env body = Inr responseData"
      and caps: "pc_Capture precond = before @ capture # after"
      and absent: "fieldAbsent responseData (cap_Field capture)"
  shows "\<exists>err result e execCtx' l1 l2.
           captureFieldFromData responseData (cap_Field capture) = Inl err
         \<and> captureFields responseData [capture] r0 c0 =
             (r0, c0, [(LWarning, Sprintf ''Failed to capture field '%s' as '%s': %v''
                          [S (cap_Field capture), S (cap_Name capture), E err])])
         \<and> executePrecondition env precond execCtx w =
             ((result, e), execCtx', w',
              l1 @ (LWarning, Sprintf ''Failed to capture field '%s' as '%s': %v''
                      [S (cap_Field capture), S (cap_Name capture), E err]) # l2)
         \<and> executePrecondition env (precond\<lparr>pc_Capture := before @ after\<rparr>) execCtx w =
             ((result, e), execCtx', w', l1 @ l2)"
proof -
  from captureFieldFromData_absent[OF absent] obtain err where
    failed: "captureFieldFromData responseData (cap_Field capture) = Inl err"
    by blast
  have one: "captureFields responseData [capture] r0 c0 =
               (r0, c0, [(LWarning, Sprintf ''Failed to capture field '%s' as '%s': %v''
                            [S (cap_Field capture), S (cap_Name capture), E err])])"
    using failed by simp
  from executePrecondition_failed_capture[OF api call parse caps failed] failed one
  show ?thesis by blast
qed

theorem C7_witness:
  "fieldAbsent [(''status'', JString ''ready'')] ''name''
   \<and> (\<exists>result e execCtx' l1 l2.
         executePrecondition demo_env demo_C demo_ctx 0 =
           ((result, e), execCtx', 1,
            l1 @ (LWarning, Sprintf ''Failed to capture field '%s' as '%s': %v''
                    [S ''name'', S ''clusterName'',
                     E (Errorf (''field '%s' not found at path '%s'' @ [CHR 0x27])
                          [S ''name'', S ''name''])]) # l2)
       \<and> executePrecondition demo_env
           (demo_C\<lparr>pc_Capture := [\<lparr>cap_Name = ''status'', cap_Field = ''status''\<rparr>]\<rparr>) demo_ctx 0 =
           ((result, e), execCtx', 1, l1 @ l2)
       \<and> pr_CapturedFields result = [''status'' \<mapsto> JString ''ready'']
       \<and> ctx_Params execCtx' = [''status'' \<mapsto> JString ''ready'']
       \<and> e = None \<and> pr_Matched result)"
proof -
  let ?c = "\<lparr>cap_Name = ''clusterName'', cap_Field = ''name''\<rparr>"
  let ?err = "Errorf (''field '%s' not found at path '%s'' @ [CHR 0x27]) [S ''name'', S ''name'']"
  define X where "X = executePrecondition demo_env
           (demo_C\<lparr>pc_Capture := [\<lparr>cap_Name = ''status'', cap_Field = ''status''\<rparr>]\<rparr>) demo_ctx 0"
  have api: "pc_APICall demo_C = Some (demo_get ''/status'')"
    by (simp add: demo_defs)
  have call: "PreconditionExecutor_executeAPICall demo_env (demo_get ''/status'') demo_ctx 0 =
                (Inr ''{status:ready}'', 1)"
    by (simp add: demo_defs exec_defs)
  have parse: "json_Unmarshal demo_env ''{status:ready}'' = Inr [(''status'', JString ''ready'')]"
    by (simp add: demo_defs)
  have caps: "pc_Capture demo_C = [] @ ?c # [\<lparr>cap_Name = ''status'', cap_Field = ''status''\<rparr>]"
    by (simp add: demo_defs)
  have absent: "fieldAbsent [(''status'', JString ''ready'')] (cap_Field ?c)"
    by (simp add: fieldAbsent_def)
  have err: "captureFieldFromData [(''status'', JString ''ready'')] (cap_Field ?c) = Inl ?err"
    by (simp add: captureFieldFromData_def)
  have vals: "pr_CapturedFields (fst (fst X)) = [''status'' \<mapsto> JString ''ready'']"
             "ctx_Params (fst (snd X)) = [''status'' \<mapsto> JString ''ready'']"
             "snd (fst X) = None" "pr_Matched (fst (fst X))"
    unfolding X_def by (simp_all add: demo_defs exec_defs)
  from C7_capture_failure_nonfatal[OF api call parse caps absent] err
  obtain result e execCtx' l1 l2 where
    1: "executePrecondition demo_env demo_C demo_ctx 0 =
           ((result, e), execCtx', 1,
            l1 @ (LWarning, Sprintf ''Failed to capture field '%s' as '%s': %v''
                    [S ''name'', S ''clusterName'', E ?err]) # l2)"
    and 2: "X = ((result, e), execCtx', 1, l1 @ l2)"
    unfolding X_def by auto
  from 2 vals have "pr_CapturedFields result = [''status'' \<mapsto> JString ''ready'']"
    "ctx_Params execCtx' = [''status'' \<mapsto> JString ''ready'']" "e = None" "pr_Matched result"
    by simp_all
  with absent 1 2 show ?thesis unfolding X_def by auto
qed

lemma captureFields_status:
  "pr_Status (fst (captureFields d caps r c)) = pr_Status r
   \<and> pr_Error (fst (captureFields d caps r c)) = pr_Error r"
  by (induction caps arbitrary: r c) (simp_all add: case_prod_beta split: sum.splits)

text \<open>
  C8 (as amended). For a precondition with neither structured conditions nor a CEL
  expression, the evaluation of the conditions (step 3) yields \<open>matched = true\<close> with no
  error, on every result and context. When moreover the precondition has no API call, or
  its API call succeeds and the response body parses as JSON, the step returns a matched,
  successful result with no error, and the phase goes on with the next precondition.
\<close>

theorem C8_no_conditions_trivially_matched:
  assumes nc: "pc_Conditions precond = []" and ne: "pc_Expression precond = []"
      and api: "pc_APICall precond = None
                \<or> (\<exists>apiCall body w1 responseData.
                      pc_APICall precond = Some apiCall
                    \<and> PreconditionExecutor_executeAPICall env apiCall execCtx w = (Inr body, w1)
                    \<and> json_Unmarshal env body = Inr responseData)"
  shows "evaluateConditions env precond r0 c0 =
           ((r0\<lparr>pr_Matched := True\<rparr>, None), c0,
            [(LInfo, Sprintf ''Precondition '%s' satisfied'' [S (pc_Name precond)])])
         \<and> (\<exists>result execCtx' w' l.
               executePrecondition env precond execCtx w = ((result, None), execCtx', w', l)
             \<and> pr_Matched result \<and> pr_Status result = StatusSuccess \<and> pr_Error result = None
             \<and> PreconditionExecutor_ExecuteAll env (precond # rest) execCtx w =
                 (case PreconditionExecutor_loop env rest [result] execCtx' w' of
                    (outcome, c, w'', l') \<Rightarrow> (outcome, c, w'', l @ l')))"
proof -
  have ev: "\<And>r c. evaluateConditions env precond r c =
           ((r\<lparr>pr_Matched := True\<rparr>, None), c,
            [(LInfo, Sprintf ''Precondition '%s' satisfied'' [S (pc_Name precond)])])"
    using nc ne by (simp add: evaluateConditions_def preconditionDone_def)
  obtain result execCtx' w' l where
    run: "executePrecondition env precond execCtx w = ((result, None), execCtx', w', l)"
    and m: "pr_Matched result" and st: "pr_Status result = StatusSuccess"
    and er: "pr_Error result = None"
  proof (cases "pc_APICall precond")
    case None
    then show ?thesis using that by (simp add: executePrecondition_def ev)
  next
    case (Some apiCall)
    with api obtain body w1 responseData where
      call: "PreconditionExecutor_executeAPICall env apiCall execCtx w = (Inr body, w1)"
      and parse: "json_Unmarshal env body = Inr responseData"
      by auto
    let ?r = "\<lparr>pr_Name = pc_Name precond, pr_Status = StatusSuccess, pr_Matched = False,
               pr_CapturedFields = Map.empty, pr_APICallMade = True,
               pr_APIResponse = Some body, pr_ConditionResults = [], pr_CELResult = None,
               pr_Error = None\<rparr>"
    obtain r1 c1 l1 where c: "captureFields responseData (pc_Capture precond) ?r execCtx = (r1, c1, l1)"
      by (metis prod_cases3)
    from captureFields_status[of responseData "pc_Capture precond" ?r execCtx] c have "pr_Status r1 = StatusSuccess" "pr_Error r1 = None"
      by simp_all
    with Some call parse c show ?thesis using that
      by (simp add: executePrecondition_def ev)
  qed
  show ?thesis using ev m st er run by (auto simp: PreconditionExecutor_ExecuteAll_def)
qed

theorem C8_witness:
  "pc_Conditions demo_A = [] \<and> pc_Expression demo_A = [] \<and> pc_APICall demo_A = None
   \<and> snd (fst (executePrecondition demo_env demo_A demo_ctx 0)) = None
   \<and> pr_Matched (fst (fst (executePrecondition demo_env demo_A demo_ctx 0)))
   \<and> map pr_Name (po_Results (fst (PreconditionExecutor_ExecuteAll demo_env
                                      [demo_A, demo_B] demo_ctx 0))) = [''A'', ''B'']
   \<and> pc_Conditions demo_Fetch = [] \<and> pc_Expression demo_Fetch = []
   \<and> pc_APICall demo_Fetch = Some (demo_get ''/status'')
   \<and> PreconditionExecutor_executeAPICall demo_env (demo_get ''/status'') demo_ctx 0 =
       (Inr ''{status:ready}'', 1)
   \<and> json_Unmarshal demo_env ''{status:ready}'' = Inr [(''status'', JString ''ready'')]
   \<and> snd (fst (executePrecondition demo_env demo_Fetch demo_ctx 0)) = None
   \<and> pr_Matched (fst (fst (executePrecondition demo_env demo_Fetch demo_ctx 0)))
   \<and> map pr_Name (po_Results (fst (PreconditionExecutor_ExecuteAll demo_env
                                      [demo_Fetch, demo_B] demo_ctx 0))) = [''fetch'', ''B'']"
proof -
  define X where "X = executePrecondition demo_env demo_A demo_ctx 0"
  define Y where "Y = PreconditionExecutor_loop demo_env [demo_B] [fst (fst X)] demo_ctx 0"
  define X' where "X' = executePrecondition demo_env demo_Fetch demo_ctx 0"
  define Y' where "Y' = PreconditionExecutor_loop demo_env [demo_B] [fst (fst X')] demo_ctx 1"
  have nc: "pc_Conditions demo_A = []" and ne: "pc_Expression demo_A = []"
    and na: "pc_APICall demo_A = None"
    by (simp_all add: demo_defs)
  have nc': "pc_Conditions demo_Fetch = []" and ne': "pc_Expression demo_Fetch = []"
    and api': "pc_APICall demo_Fetch = Some (demo_get ''/status'')"
    by (simp_all add: demo_Fetch_def)
  have call: "PreconditionExecutor_executeAPICall demo_env (demo_get ''/status'') demo_ctx 0 =
                (Inr ''{status:ready}'', 1)"
    by (simp add: demo_defs exec_defs)
  have parse: "json_Unmarshal demo_env ''{status:ready}'' = Inr [(''status'', JString ''ready'')]"
    by (simp add: demo_defs)
  have hyp: "pc_APICall demo_A = None
             \<or> (\<exists>apiCall body w1 responseData.
                   pc_APICall demo_A = Some apiCall
                 \<and> PreconditionExecutor_executeAPICall demo_env apiCall demo_ctx 0 = (Inr body, w1)
                 \<and> json_Unmarshal demo_env body = Inr responseData)"
    using na by simp
  have hyp': "pc_APICall demo_Fetch = None
             \<or> (\<exists>apiCall body w1 responseData.
                   pc_APICall demo_Fetch = Some apiCall
                 \<and> PreconditionExecutor_executeAPICall demo_env apiCall demo_ctx 0 = (Inr body, w1)
                 \<and> json_Unmarshal demo_env body = Inr responseData)"
    using api' call parse by simp
  have ctx: "fst (snd X) = demo_ctx" "fst (snd (snd X)) = 0"
    unfolding X_def by (simp_all add: demo_defs exec_defs)
  have ctx': "fst (snd X') = demo_ctx" "fst (snd (snd X')) = 1"
    unfolding X'_def by (simp_all add: demo_defs demo_Fetch_def exec_defs)
  have rest: "map pr_Name (po_Results (fst Y)) = [''A'', ''B'']"
    unfolding Y_def X_def by (simp add: demo_defs exec_defs)
  have rest': "map pr_Name (po_Results (fst Y')) = [''fetch'', ''B'']"
    unfolding Y'_def X'_def by (simp add: demo_defs demo_Fetch_def exec_defs)
  from C8_no_conditions_trivially_matched[OF nc ne hyp, where rest = "[demo_B]"]
  obtain result execCtx' w' l where
    run: "X = ((result, None), execCtx', w', l)" and m: "pr_Matched result"
    and all: "PreconditionExecutor_ExecuteAll demo_env [demo_A, demo_B] demo_ctx 0 =
                (case PreconditionExecutor_loop demo_env [demo_B] [result] execCtx' w' of
                   (outcome, c, w'', l') \<Rightarrow> (outcome, c, w'', l @ l'))"
    unfolding X_def by blast
  from run ctx have "result = fst (fst X)" "execCtx' = demo_ctx" "w' = 0" by simp_all
  with all have "fst (PreconditionExecutor_ExecuteAll demo_env [demo_A, demo_B] demo_ctx 0) = fst Y"
    unfolding Y_def by (simp add: case_prod_beta)
  with run m rest have A: "snd (fst X) = None" "pr_Matched (fst (fst X))"
    "map pr_Name (po_Results (fst (PreconditionExecutor_ExecuteAll demo_env
                                      [demo_A, demo_B] demo_ctx 0))) = [''A'', ''B'']"
    by simp_all
  from C8_no_conditions_trivially_matched[OF nc' ne' hyp', where rest = "[demo_B]"]
  obtain result execCtx' w' l where
    run: "X' = ((result, None), execCtx', w', l)" and m: "pr_Matched result"
    and all: "PreconditionExecutor_ExecuteAll demo_env [demo_Fetch, demo_B] demo_ctx 0 =
                (case PreconditionExecutor_loop demo_env [demo_B] [result] execCtx' w' of
                   (outcome, c, w'', l') \<Rightarrow> (outcome, c, w'', l @ l'))"
    unfolding X'_def by blast
  from run ctx' have "result = fst (fst X')" "execCtx' = demo_ctx" "w' = 1" by simp_all
  with all have "fst (PreconditionExecutor_ExecuteAll demo_env [demo_Fetch, demo_B] demo_ctx 0) = fst Y'"
    unfolding Y'_def by (simp add: case_prod_beta)
  with run m rest' have B: "snd (fst X') = None" "pr_Matched (fst (fst X'))"
    "map pr_Name (po_Results (fst (PreconditionExecutor_ExecuteAll demo_env
                                      [demo_Fetch, demo_B] demo_ctx 0))) = [''fetch'', ''B'']"
    by simp_all
  from nc ne na nc' ne' api' call parse A B show ?thesis unfolding X_def X'_def by simp
qed

text \<open>
  C8 as stated fails: the precondition \<open>check\<close> declares neither structured conditions
  nor an expression, its API call is refused, and the step returns a failed result that
  is not matched, with an execution error; the phase stops there and the next
  precondition is not evaluated.
\<close>

theorem C8_counterexample:
  "pc_Conditions demo_Down = [] \<and> pc_Expression demo_Down = []
   \<and> executePrecondition demo_env demo_Down demo_ctx 0 =
       ((\<lparr>pr_Name = ''check'', pr_Status = StatusFailed, pr_Matched = False,
          pr_CapturedFields = Map.empty, pr_APICallMade = False, pr_APIResponse = None,
          pr_ConditionResults = [], pr_CELResult = None,
          pr_Error = Some (APIError KindTransport ''GET'' ''/down'' None None
                             (Some (OtherError ''connection refused'')))\<rparr>,
         Some (ExecutorError PhasePreconditions ''check'' ''API call failed''
                 (Some (APIError KindTransport ''GET'' ''/down'' None None
                          (Some (OtherError ''connection refused'')))))),
        setExecutionError PhasePreconditions ''check''
          (ErrorString (APIError KindTransport ''GET'' ''/down'' None None
                          (Some (OtherError ''connection refused'')))) demo_ctx,
        1, [(LInfo, Sprintf ''Evaluating precondition: %s'' [S ''check''])])
   \<and> \<not> po_AllMatched (fst (PreconditionExecutor_ExecuteAll demo_env [demo_Down, demo_A] demo_ctx 0))
   \<and> map pr_Name (po_Results (fst (PreconditionExecutor_ExecuteAll demo_env [demo_Down, demo_A]
                                      demo_ctx 0))) = [''check'']
   \<and> map pr_Matched (po_Results (fst (PreconditionExecutor_ExecuteAll demo_env [demo_Down, demo_A]
                                         demo_ctx 0))) = [False]"
  by (simp add: demo_defs exec_defs)

section \<open>The event interpreter\<close>

lemma Execute_phases:
  assumes "parseEventData env (Some e) = Inr eventData"
      and "executeParamExtraction env (NewExecutionContext env e eventData) w = (None, execCtx1, w1)"
      and "Execute_Preconditions env config (initialResult e execCtx1) execCtx1 w1 = (result2, execCtx2, w2, l2)"
      and "Execute_Resources env config result2 execCtx2 w2 = (result3, execCtx3, w3, l3)"
      and "Execute_PostActions env config result3 execCtx3 w3 = (result4, w4, l4)"
  shows "\<exists>l. Execute env config (Some e) w = (result4, w4, l)"
  using assms by (simp add: Execute_def initialResult_def)

lemma Execute_PostActions_result:
  assumes "PostActionExecutor_ExecuteAll env (cfg_Post config) execCtx w = ((postResults, err), execCtx', w', l)"
  shows "\<exists>result' l'. Execute_PostActions env config result execCtx w = (result', w', l')
           \<and> er_PostActionResults result' = Some postResults
           \<and> er_ExecutionContext result' = Some execCtx'
           \<and> er_Phase result' = PhasePostActions
           \<and> er_ResourceResults result' = er_ResourceResults result
           \<and> er_ResourcesSkipped result' = er_ResourcesSkipped result
           \<and> er_SkipReason result' = er_SkipReason result
           \<and> er_Status result' = (if err = None then er_Status result else StatusFailed)
           \<and> er_Error result' = (if err = None then er_Error result else err)"
  using assms by (cases err) (simp_all add: Execute_PostActions_def Let_def)

lemma demo_parse:
  "parseEventData demo_env (Some (demo_event ''{id:c-1}'')) = Inr [(''id'', JString ''c-1'')]"
  by (simp add: demo_defs exec_defs)

lemma demo_extract:
  "executeParamExtraction demo_env
     (NewExecutionContext demo_env (demo_event ''{id:c-1}'') [(''id'', JString ''c-1'')]) 0 =
   (None, demo_ctx1, 0)"
  by (simp add: demo_defs exec_defs demo_ctx1_def)

text \<open>
  C1 (as amended). For an event whose data parses and whose parameter extraction
  succeeds, the post-action executor is run whatever the preconditions and the
  resources did: the result holds the results it returned and the execution context it
  left, the outside world is the one it left, and the phase of the result is the
  post-actions phase.
\<close>

theorem C1_post_actions_run:
  assumes parse: "parseEventData env (Some e) = Inr eventData"
      and extr: "executeParamExtraction env (NewExecutionContext env e eventData) w =
                      (None, execCtx1, w1)"
      and run: "Execute env config (Some e) w = (result, w', l)"
  shows "\<exists>execCtx3 w3 postResults err execCtx4 l4.
           PostActionExecutor_ExecuteAll env (cfg_Post config) execCtx3 w3 =
             ((postResults, err), execCtx4, w', l4)
           \<and> er_PostActionResults result = Some postResults
           \<and> er_ExecutionContext result = Some execCtx4
           \<and> er_Phase result = PhasePostActions"
proof -
  obtain result2 execCtx2 w2 l2 where p2:
    "Execute_Preconditions env config (initialResult e execCtx1) execCtx1 w1 = (result2, execCtx2, w2, l2)"
    by (metis prod_cases4)
  obtain result3 execCtx3 w3 l3 where p3:
    "Execute_Resources env config result2 execCtx2 w2 = (result3, execCtx3, w3, l3)"
    by (metis prod_cases4)
  obtain postResults err execCtx4 w4 l4 where p4:
    "PostActionExecutor_ExecuteAll env (cfg_Post config) execCtx3 w3 = ((postResults, err), execCtx4, w4, l4)"
    by (metis prod_cases4 surj_pair)
  from Execute_PostActions_result[OF p4, of result3] obtain result4 l4' where r4:
    "Execute_PostActions env config result3 execCtx3 w3 = (result4, w4, l4')"
    "er_PostActionResults result4 = Some postResults"
    "er_ExecutionContext result4 = Some execCtx4"
    "er_Phase result4 = PhasePostActions"
    by blast
  from Execute_phases[OF parse extr p2 p3 r4(1)] run have "result = result4" "w' = w4"
    by auto
  with p4 r4 show ?thesis by blast
qed

theorem C1_witness:
  "parseEventData demo_env (Some (demo_event ''{id:c-1}'')) = Inr [(''id'', JString ''c-1'')]
   \<and> er_Status (fst (Execute demo_env (demo_config [demo_Down] ''/report'')
                        (Some (demo_event ''{id:c-1}'')) 0)) = StatusFailed
   \<and> er_PostActionResults (fst (Execute demo_env (demo_config [demo_Down] ''/report'')
                                   (Some (demo_event ''{id:c-1}'')) 0)) \<noteq> None
   \<and> er_Phase (fst (Execute demo_env (demo_config [demo_Down] ''/report'')
                       (Some (demo_event ''{id:c-1}'')) 0)) = PhasePostActions"
proof -
  define X where "X = Execute demo_env (demo_config [demo_Down] ''/report'')
                        (Some (demo_event ''{id:c-1}'')) 0"
  have run: "Execute demo_env (demo_config [demo_Down] ''/report'')
               (Some (demo_event ''{id:c-1}'')) 0 = (fst X, fst (snd X), snd (snd X))"
    by (simp add: X_def)
  have st: "er_Status (fst X) = StatusFailed"
    unfolding X_def by (simp add: demo_defs exec_defs)
  from C1_post_actions_run[OF demo_parse demo_extract run] demo_parse st
  show ?thesis unfolding X_def by auto
qed

text \<open>
  C1 as stated fails: the data \<open>{}\<close> parses, parameter extraction then fails on the
  missing \<open>id\<close>, and \<open>Execute\<close> returns through \<open>finishWithError\<close>: no post-action result
  is recorded and no API call was made.
\<close>

theorem C1_counterexample:
  "parseEventData demo_env (Some (demo_event ''{}'')) = Inr []
   \<and> er_PostActionResults
        (fst (Execute demo_env (demo_config [demo_A] ''/report'') (Some (demo_event ''{}'')) 0)) = None
   \<and> fst (snd (Execute demo_env (demo_config [demo_A] ''/report'') (Some (demo_event ''{}'')) 0)) = 0"
  by (simp add: demo_defs exec_defs)

lemma Execute_Preconditions_not_met:
  assumes "PreconditionExecutor_ExecuteAll env (cfg_Preconditions config) execCtx w =
             (outcome, execCtx', w', l)"
      and "po_Error outcome = None" and "\<not> po_AllMatched outcome"
  shows "\<exists>l'. Execute_Preconditions env config result execCtx w =
           (result\<lparr>er_Phase := PhasePreconditions,
                   er_PreconditionResults := Some (po_Results outcome),
                   er_ResourcesSkipped := True, er_SkipReason := po_NotMetReason outcome\<rparr>,
            SetSkipped env ''PreconditionNotMet'' (po_NotMetReason outcome) execCtx', w', l')"
  using assms by (simp add: Execute_Preconditions_def Let_def)

lemma Execute_Resources_skipped:
  assumes "er_ResourcesSkipped result"
  shows "\<exists>l. Execute_Resources env config result execCtx w =
           (result\<lparr>er_Phase := PhaseResources\<rparr>, execCtx, w, l)"
  using assms by (simp add: Execute_Resources_def Let_def)

text \<open>
  C6. When the preconditions phase ends without an execution error and not all
  preconditions matched, the result has no resource results, is marked as skipped with
  the not-met reason of the phase (which is not empty), and the post-action executor is
  run on the context and the outside world the preconditions phase left (after
  \<open>SetSkipped\<close>): no resource step ran in between.
\<close>

theorem C6_resources_skipped:
  assumes parse: "parseEventData env (Some e) = Inr eventData"
      and extr: "executeParamExtraction env (NewExecutionContext env e eventData) w =
                   (None, execCtx1, w1)"
      and pre: "PreconditionExecutor_ExecuteAll env (cfg_Preconditions config) execCtx1 w1 =
                  (outcome, execCtx2, w2, l2)"
      and noerr: "po_Error outcome = None"
      and notall: "\<not> po_AllMatched outcome"
      and run: "Execute env config (Some e) w = (result, w', l)"
  shows "er_ResourceResults result = None
         \<and> er_ResourcesSkipped result
         \<and> er_SkipReason result = po_NotMetReason outcome
         \<and> er_SkipReason result \<noteq> Lit []
         \<and> (\<exists>postResults err execCtx4 l4.
               PostActionExecutor_ExecuteAll env (cfg_Post config)
                 (SetSkipped env ''PreconditionNotMet'' (po_NotMetReason outcome) execCtx2) w2 =
                 ((postResults, err), execCtx4, w', l4)
               \<and> er_PostActionResults result = Some postResults)"
proof -
  let ?r2 = "(initialResult e execCtx1)\<lparr>er_Phase := PhasePreconditions,
                   er_PreconditionResults := Some (po_Results outcome),
                   er_ResourcesSkipped := True, er_SkipReason := po_NotMetReason outcome\<rparr>"
  let ?c2 = "SetSkipped env ''PreconditionNotMet'' (po_NotMetReason outcome) execCtx2"
  from Execute_Preconditions_not_met[OF pre noerr notall] obtain l2' where p2:
    "Execute_Preconditions env config (initialResult e execCtx1) execCtx1 w1 = (?r2, ?c2, w2, l2')"
    by blast
  have "er_ResourcesSkipped ?r2" by simp
  from Execute_Resources_skipped[OF this, of env config ?c2 w2] obtain l3 where p3:
    "Execute_Resources env config ?r2 ?c2 w2 = (?r2\<lparr>er_Phase := PhaseResources\<rparr>, ?c2, w2, l3)"
    by blast
  obtain postResults err execCtx4 w4 l4 where p4:
    "PostActionExecutor_ExecuteAll env (cfg_Post config) ?c2 w2 = ((postResults, err), execCtx4, w4, l4)"
    by (metis prod_cases4 surj_pair)
  from Execute_PostActions_result[OF p4, of "?r2\<lparr>er_Phase := PhaseResources\<rparr>"]
  obtain result4 l4' where r4:
    "Execute_PostActions env config (?r2\<lparr>er_Phase := PhaseResources\<rparr>) ?c2 w2 = (result4, w4, l4')"
    "er_PostActionResults result4 = Some postResults"
    "er_ResourceResults result4 = None"
    "er_ResourcesSkipped result4"
    "er_SkipReason result4 = po_NotMetReason outcome"
    by (auto simp: initialResult_def)
  from Execute_phases[OF parse extr p2 p3 r4(1)] run have eq: "result = result4" "w' = w4"
    by auto
  from loop_not_met_reason[OF pre[unfolded PreconditionExecutor_ExecuteAll_def] noerr notall]
  have "po_NotMetReason outcome \<noteq> Lit []" by auto
  with eq r4 p4 show ?thesis by auto
qed

theorem C6_witness:
  "po_Error (fst (PreconditionExecutor_ExecuteAll demo_env [demo_A, demo_B] demo_ctx1 0)) = None
   \<and> \<not> po_AllMatched (fst (PreconditionExecutor_ExecuteAll demo_env [demo_A, demo_B] demo_ctx1 0))
   \<and> er_ResourceResults (fst (Execute demo_env (demo_config [demo_A, demo_B] ''/report'')
                                 (Some (demo_event ''{id:c-1}'')) 0)) = None
   \<and> er_ResourcesSkipped (fst (Execute demo_env (demo_config [demo_A, demo_B] ''/report'')
                                 (Some (demo_event ''{id:c-1}'')) 0))
   \<and> er_SkipReason (fst (Execute demo_env (demo_config [demo_A, demo_B] ''/report'')
                            (Some (demo_event ''{id:c-1}'')) 0)) =
       Sprintf ''precondition '%s' not met: %s''
         [S ''B'', G (Lit ''no specific details available'')]
   \<and> er_PostActionResults (fst (Execute demo_env (demo_config [demo_A, demo_B] ''/report'')
                                   (Some (demo_event ''{id:c-1}'')) 0)) \<noteq> None
   \<and> fst (snd (Execute demo_env (demo_config [demo_A, demo_B] ''/report'')
                  (Some (demo_event ''{id:c-1}'')) 0)) = 1"
proof -
  define X where "X = Execute demo_env (demo_config [demo_A, demo_B] ''/report'')
                        (Some (demo_event ''{id:c-1}'')) 0"
  define Y where "Y = PreconditionExecutor_ExecuteAll demo_env [demo_A, demo_B] demo_ctx1 0"
  have run: "Execute demo_env (demo_config [demo_A, demo_B] ''/report'')
               (Some (demo_event ''{id:c-1}'')) 0 = (fst X, fst (snd X), snd (snd X))"
    by (simp add: X_def)
  have pre: "PreconditionExecutor_ExecuteAll demo_env
               (cfg_Preconditions (demo_config [demo_A, demo_B] ''/report'')) demo_ctx1 0 =
               (fst Y, fst (snd Y), fst (snd (snd Y)), snd (snd (snd Y)))"
    by (simp add: Y_def demo_config_def)
  have noerr: "po_Error (fst Y) = None" and notall: "\<not> po_AllMatched (fst Y)"
    and reason: "po_NotMetReason (fst Y) =
       Sprintf ''precondition '%s' not met: %s''
         [S ''B'', G (Lit ''no specific details available'')]"
    unfolding Y_def by (simp_all add: demo_defs exec_defs demo_ctx1_def)
  have world: "fst (snd X) = 1"
    unfolding X_def by (simp add: demo_defs exec_defs)
  from C6_resources_skipped[OF demo_parse demo_extract pre noerr notall run]
    noerr notall reason world
  show ?thesis unfolding X_def Y_def by auto
qed

lemma Execute_Preconditions_failed_error:
  assumes "Execute_Preconditions env config result execCtx w = (result', execCtx', w', l)"
      and "er_Status result = StatusFailed \<longrightarrow> er_Error result \<noteq> None"
  shows "er_Status result' = StatusFailed \<longrightarrow> er_Error result' \<noteq> None"
  using assms
  by (auto simp: Execute_Preconditions_def Let_def split: prod.splits option.splits if_splits)

lemma Execute_Resources_failed_error:
  assumes "Execute_Resources env config result execCtx w = (result', execCtx', w', l)"
      and "er_Status result = StatusFailed \<longrightarrow> er_Error result \<noteq> None"
  shows "er_Status result' = StatusFailed \<longrightarrow> er_Error result' \<noteq> None"
  using assms
  by (auto simp: Execute_Resources_def Let_def split: prod.splits option.splits if_splits)

lemma Execute_PostActions_failed_error:
  assumes "Execute_PostActions env config result execCtx w = (result', w', l)"
      and "er_Status result = StatusFailed \<longrightarrow> er_Error result \<noteq> None"
  shows "er_Status result' = StatusFailed \<longrightarrow> er_Error result' \<noteq> None"
  using assms
  by (auto simp: Execute_PostActions_def Let_def split: prod.splits option.splits if_splits)

lemma Execute_failed_error:
  assumes "Execute env config evt w = (result, w', l)" and "er_Status result = StatusFailed"
  shows "er_Error result \<noteq> None"
proof (cases evt)
  case None
  with assms show ?thesis by (auto simp: Execute_def)
next
  case (Some e)
  show ?thesis
  proof (cases "parseEventData env (Some e)")
    case (Inl err)
    with assms Some show ?thesis by (auto simp: Execute_def)
  next
    case (Inr eventData)
    obtain perr execCtx1 w1 where ex:
      "executeParamExtraction env (NewExecutionContext env e eventData) w = (perr, execCtx1, w1)"
      by (metis prod_cases3)
    show ?thesis
    proof (cases perr)
      case (Some err)
      with assms \<open>evt = Some e\<close> Inr ex show ?thesis
        by (auto simp: Execute_def finishWithError_def)
    next
      case None
      obtain result2 execCtx2 w2 l2 where p2:
        "Execute_Preconditions env config (initialResult e execCtx1) execCtx1 w1 = (result2, execCtx2, w2, l2)"
        by (metis prod_cases4)
      obtain result3 execCtx3 w3 l3 where p3:
        "Execute_Resources env config result2 execCtx2 w2 = (result3, execCtx3, w3, l3)"
        by (metis prod_cases4)
      obtain result4 w4 l4 where p4:
        "Execute_PostActions env config result3 execCtx3 w3 = (result4, w4, l4)"
        by (metis prod_cases3)
      from Execute_phases[OF Inr ex[unfolded None] p2 p3 p4] assms(1) \<open>evt = Some e\<close>
      have "result = result4" by auto
      moreover have "er_Status result4 = StatusFailed \<longrightarrow> er_Error result4 \<noteq> None"
        by (rule Execute_PostActions_failed_error[OF p4],
            rule Execute_Resources_failed_error[OF p3],
            rule Execute_Preconditions_failed_error[OF p2])
           (simp add: initialResult_def)
      ultimately show ?thesis using assms(2) by simp
    qed
  qed
qed

text \<open>
  C2. The handler returns nil for a failed result in the parameter-extraction phase and
  for a successful result, and the execution error, which is not nil, for every other
  failed result; the outside world and the log are those of \<open>Execute\<close>.
\<close>

theorem C2_ack_policy:
  assumes run: "Execute env config evt w = (result, w', l)"
  shows "(er_Status result = StatusFailed \<and> er_Phase result = PhaseParamExtraction \<longrightarrow>
            CreateHandler env config evt w = (None, w', l))
         \<and> (er_Status result = StatusSuccess \<longrightarrow> CreateHandler env config evt w = (None, w', l))
         \<and> (er_Status result = StatusFailed \<and> er_Phase result \<noteq> PhaseParamExtraction \<longrightarrow>
              CreateHandler env config evt w = (er_Error result, w', l)
              \<and> er_Error result \<noteq> None)"
  using run Execute_failed_error[OF run] by (auto simp: CreateHandler_def)

theorem C2_witness:
  "er_Status (fst (Execute demo_env (demo_config [demo_A] ''/report'')
                     (Some (demo_event ''{}'')) 0)) = StatusFailed
   \<and> er_Phase (fst (Execute demo_env (demo_config [demo_A] ''/report'')
                       (Some (demo_event ''{}'')) 0)) = PhaseParamExtraction
   \<and> fst (CreateHandler demo_env (demo_config [demo_A] ''/report'')
            (Some (demo_event ''{}'')) 0) = None
   \<and> er_Status (fst (Execute demo_env (demo_config [demo_A, demo_B] ''/report'')
                       (Some (demo_event ''{id:c-1}'')) 0)) = StatusSuccess
   \<and> er_ResourcesSkipped (fst (Execute demo_env (demo_config [demo_A, demo_B] ''/report'')
                                 (Some (demo_event ''{id:c-1}'')) 0))
   \<and> fst (CreateHandler demo_env (demo_config [demo_A, demo_B] ''/report'')
            (Some (demo_event ''{id:c-1}'')) 0) = None
   \<and> er_Status (fst (Execute demo_env (demo_config [demo_Down] ''/report'')
                       (Some (demo_event ''{id:c-1}'')) 0)) = StatusFailed
   \<and> er_Phase (fst (Execute demo_env (demo_config [demo_Down] ''/report'')
                      (Some (demo_event ''{id:c-1}'')) 0)) = PhasePostActions
   \<and> fst (CreateHandler demo_env (demo_config [demo_Down] ''/report'')
            (Some (demo_event ''{id:c-1}'')) 0) =
       Some (ExecutorError PhasePreconditions ''check'' ''API call failed''
               (Some (APIError KindTransport ''GET'' ''/down'' None None
                        (Some (OtherError ''connection refused'')))))"
proof -
  define X1 where "X1 = Execute demo_env (demo_config [demo_A] ''/report'')
                          (Some (demo_event ''{}'')) 0"
  define X2 where "X2 = Execute demo_env (demo_config [demo_A, demo_B] ''/report'')
                          (Some (demo_event ''{id:c-1}'')) 0"
  define X3 where "X3 = Execute demo_env (demo_config [demo_Down] ''/report'')
                          (Some (demo_event ''{id:c-1}'')) 0"
  have r1: "Execute demo_env (demo_config [demo_A] ''/report'') (Some (demo_event ''{}'')) 0 =
              (fst X1, fst (snd X1), snd (snd X1))"
    and r2: "Execute demo_env (demo_config [demo_A, demo_B] ''/report'')
               (Some (demo_event ''{id:c-1}'')) 0 = (fst X2, fst (snd X2), snd (snd X2))"
    and r3: "Execute demo_env (demo_config [demo_Down] ''/report'')
               (Some (demo_event ''{id:c-1}'')) 0 = (fst X3, fst (snd X3), snd (snd X3))"
    by (simp_all add: X1_def X2_def X3_def)
  have s1: "er_Status (fst X1) = StatusFailed" "er_Phase (fst X1) = PhaseParamExtraction"
    unfolding X1_def by (simp_all add: demo_defs exec_defs)
  have s2: "er_Status (fst X2) = StatusSuccess" "er_ResourcesSkipped (fst X2)"
    unfolding X2_def by (simp_all add: demo_defs exec_defs)
  have s3: "er_Status (fst X3) = StatusFailed" "er_Phase (fst X3) = PhasePostActions"
    "er_Error (fst X3) = Some (ExecutorError PhasePreconditions ''check'' ''API call failed''
               (Some (APIError KindTransport ''GET'' ''/down'' None None
                        (Some (OtherError ''connection refused'')))))"
    unfolding X3_def by (simp_all add: demo_defs exec_defs)
  from C2_ack_policy[OF r1] C2_ack_policy[OF r2] C2_ack_policy[OF r3] s1 s2 s3
  show ?thesis unfolding X1_def X2_def X3_def by simp
qed

section \<open>The execution error of the adapter metadata\<close>

lemma executePrecondition_api_failure_recorded:
  assumes "executePrecondition env p execCtx w =
             ((r, Some (ExecutorError PhasePreconditions step msg (Some cause))), execCtx', w', l)"
      and "msg = ''API call failed'' \<or> msg = ''failed to parse API response''"
  shows "am_ExecutionError (ctx_Adapter execCtx') =
           Some \<lparr>ee_Phase = PhasePreconditions, ee_Step = step, ee_Message = ErrorString cause\<rparr>"
  using assms unfolding executePrecondition_def Let_def evaluateConditions_def preconditionDone_def
  by (auto simp: setExecutionError_def split: option.splits prod.splits sum.splits if_splits)

lemma loop_api_failure_recorded:
  assumes "po_Error (fst (PreconditionExecutor_loop env ps rs execCtx w)) =
             Some (ExecutorError PhasePreconditions step msg (Some cause))"
      and "msg = ''API call failed'' \<or> msg = ''failed to parse API response''"
  shows "am_ExecutionError (ctx_Adapter (fst (snd (PreconditionExecutor_loop env ps rs execCtx w)))) =
           Some \<lparr>ee_Phase = PhasePreconditions, ee_Step = step, ee_Message = ErrorString cause\<rparr>"
  using assms(1)
proof (induction ps arbitrary: rs execCtx w)
  case Nil
  then show ?case by simp
next
  case (Cons p ps)
  obtain r err c1 w1 l1 where ep: "executePrecondition env p execCtx w = ((r, err), c1, w1, l1)"
    by (metis prod_cases4 surj_pair)
  show ?case
  proof (cases err)
    case (Some e)
    with Cons.prems ep have "e = ExecutorError PhasePreconditions step msg (Some cause)"
      by simp
    with ep Some assms(2)
      executePrecondition_api_failure_recorded[of env p execCtx w r step msg cause c1 w1 l1]
    show ?thesis by simp
  next
    case None
    show ?thesis
    proof (cases "pr_Matched r")
      case False
      with Cons.prems ep None show ?thesis by simp
    next
      case True
      with ep None have eq:
        "fst (PreconditionExecutor_loop env (p # ps) rs execCtx w) =
           fst (PreconditionExecutor_loop env ps (rs @ [r]) c1 w1)"
        "fst (snd (PreconditionExecutor_loop env (p # ps) rs execCtx w)) =
           fst (snd (PreconditionExecutor_loop env ps (rs @ [r]) c1 w1))"
        by (simp_all split: prod.splits)
      from Cons.prems show ?thesis unfolding eq by (rule Cons.IH)
    qed
  qed
qed

lemma buildPostPayloads_loop_adapter:
  "ctx_Adapter (fst (snd (buildPostPayloads_loop env evalCtx payloads execCtx))) = ctx_Adapter execCtx"
proof (induction payloads arbitrary: execCtx)
  case Nil
  then show ?case by simp
next
  case (Cons a payloads)
  have step: "\<And>cx. ctx_Adapter (fst (snd (buildPostPayloads_loop env evalCtx payloads
                         (execCtx\<lparr>ctx_Params := cx\<rparr>)))) = ctx_Adapter execCtx"
    using Cons.IH[of "execCtx\<lparr>ctx_Params := cx\<rparr>" for cx] by simp
  show ?case
    by (simp add: case_prod_beta step split: option.splits sum.splits)
qed

lemma PostActionExecutor_loop_ctx_fst:
  "(case snd (fst (PostActionExecutor_loop env actions rs execCtx w)) of
      None \<Rightarrow> fst (snd (PostActionExecutor_loop env actions rs execCtx w)) = execCtx
    | Some e \<Rightarrow>
        (\<exists>step. fst (snd (PostActionExecutor_loop env actions rs execCtx w)) =
                  setExecutionError PhasePostActions step (ErrorString e) execCtx))"
proof (induction actions arbitrary: rs w)
  case Nil
  then show ?case by simp
next
  case (Cons a actions)
  obtain r e w1 l1 where ep: "executePostAction env a execCtx w = ((r, e), w1, l1)"
    by (metis prod_cases3 surj_pair)
  show ?case
  proof (cases e)
    case (Some x)
    with ep show ?thesis by auto
  next
    case None
    with ep have h:
      "snd (fst (PostActionExecutor_loop env (a # actions) rs execCtx w)) =
         snd (fst (PostActionExecutor_loop env actions (rs @ [r]) execCtx w1))"
      "fst (snd (PostActionExecutor_loop env (a # actions) rs execCtx w)) =
         fst (snd (PostActionExecutor_loop env actions (rs @ [r]) execCtx w1))"
      by (simp_all split: prod.splits)
    show ?thesis unfolding h by (rule Cons.IH)
  qed
qed

lemma PostActionExecutor_loop_ctx:
  "PostActionExecutor_loop env actions rs execCtx w = ((rs', err), execCtx', w', l) \<Longrightarrow>
     (case err of
        None \<Rightarrow> execCtx' = execCtx
      | Some e \<Rightarrow> (\<exists>step. execCtx' = setExecutionError PhasePostActions step (ErrorString e) execCtx))"
  using PostActionExecutor_loop_ctx_fst[of env actions rs execCtx w] by (cases err) simp_all

lemma PostActionExecutor_ExecuteAll_ExecutionError:
  assumes "PostActionExecutor_ExecuteAll env postConfig execCtx w = ((rs, err), execCtx', w', l)"
  shows "(err = None \<longrightarrow> ctx_Adapter execCtx' = ctx_Adapter execCtx)
         \<and> (\<forall>e. err = Some e \<longrightarrow>
               (\<exists>step cause. am_ExecutionError (ctx_Adapter execCtx') =
                  Some \<lparr>ee_Phase = PhasePostActions, ee_Step = step,
                        ee_Message = ErrorString cause\<rparr>))"
proof (cases postConfig)
  case None
  with assms show ?thesis by (simp add: PostActionExecutor_ExecuteAll_def)
next
  case (Some pc)
  define B where "B = (if post_Payloads pc \<noteq> []
                 then buildPostPayloads env (post_Payloads pc) execCtx
                 else (None, execCtx, []))"
  obtain berr c1 l1 where b: "B = (berr, c1, l1)" by (metis prod_cases3)
  have ad: "ctx_Adapter c1 = ctx_Adapter execCtx"
    using b buildPostPayloads_loop_adapter[of env execCtx "post_Payloads pc" execCtx]
    by (auto simp: B_def buildPostPayloads_def split: if_splits)
  show ?thesis
  proof (cases berr)
    case (Some be)
    with assms \<open>postConfig = Some pc\<close> b show ?thesis
      by (auto simp: PostActionExecutor_ExecuteAll_def B_def[symmetric] setExecutionError_def)
  next
    case None
    obtain q c2 w2 l2 where lp:
      "PostActionExecutor_loop env (post_PostActions pc) [] c1 w = (q, c2, w2, l2)"
      by (metis prod_cases4)
    with assms \<open>postConfig = Some pc\<close> b None have eq: "q = (rs, err)" "c2 = execCtx'"
      by (simp_all add: PostActionExecutor_ExecuteAll_def B_def[symmetric])
    from PostActionExecutor_loop_ctx[OF lp[unfolded eq]] ad show ?thesis
      by (cases err) (auto simp: setExecutionError_def)
  qed
qed

lemma Execute_Preconditions_error:
  assumes "PreconditionExecutor_ExecuteAll env (cfg_Preconditions config) execCtx w =
             (outcome, execCtx', w', l)"
      and "po_Error outcome = Some perr"
  shows "\<exists>l'. Execute_Preconditions env config result execCtx w =
           (result\<lparr>er_Phase := PhasePreconditions,
                   er_PreconditionResults := Some (po_Results outcome),
                   er_Status := StatusFailed, er_Error := Some perr,
                   er_ErrorReason := ''precondition evaluation failed''\<rparr>,
            SetError env ''PreconditionFailed'' (ErrorString perr) execCtx', w', l')"
  using assms by (simp add: Execute_Preconditions_def Let_def)

lemma Execute_Resources_failed:
  assumes "er_Status result = StatusFailed"
  shows "\<exists>l. Execute_Resources env config result execCtx w =
           (result\<lparr>er_Phase := PhaseResources\<rparr>, execCtx, w, l)"
  using assms by (simp add: Execute_Resources_def Let_def)

lemma executePostAction_failure:
  assumes "executePostAction env a c w = ((r, Some e), w', l)"
  shows "\<exists>m verr. e = ExecutorError PhasePostActions (pa_Name a) m (Some verr)
           \<and> par_Name r = pa_Name a \<and> par_Status r = StatusFailed \<and> par_Error r = Some verr"
  using assms unfolding executePostAction_def PostActionExecutor_executeAPICall_def Let_def
  by (auto split: option.splits prod.splits)

lemma PostActionExecutor_loop_failure:
  assumes "PostActionExecutor_loop env actions rs execCtx w = ((rs', Some e), c', w', l)"
  shows "length rs < length rs' \<and> length rs' \<le> length rs + length actions
         \<and> (\<exists>m verr. e = ExecutorError PhasePostActions
                            (pa_Name (actions ! (length rs' - length rs - 1))) m (Some verr)
               \<and> par_Name (last rs') = pa_Name (actions ! (length rs' - length rs - 1))
               \<and> par_Status (last rs') = StatusFailed \<and> par_Error (last rs') = Some verr)
         \<and> c' = setExecutionError PhasePostActions
                  (pa_Name (actions ! (length rs' - length rs - 1))) (ErrorString e) execCtx"
  using assms
proof (induction actions arbitrary: rs w l)
  case Nil
  then show ?case by simp
next
  case (Cons a actions)
  obtain r err w1 l1 where ep: "executePostAction env a execCtx w = ((r, err), w1, l1)"
    by (metis prod_cases3 surj_pair)
  show ?case
  proof (cases err)
    case (Some x)
    with Cons.prems ep have eq: "rs' = rs @ [r]" "x = e"
      "c' = setExecutionError PhasePostActions (pa_Name a) (ErrorString e) execCtx"
      by auto
    from executePostAction_failure[OF ep[unfolded Some eq(2)]] eq show ?thesis by simp
  next
    case None
    with Cons.prems ep obtain l' where
      rec: "PostActionExecutor_loop env actions (rs @ [r]) execCtx w1 = ((rs', Some e), c', w', l')"
      by (auto split: prod.splits)
    note ih = Cons.IH[OF rec]
    from ih have len: "Suc (length rs) < length rs'" by simp
    then have idx: "length rs' - length rs - 1 = Suc (length rs' - length (rs @ [r]) - 1)"
      by simp
    have nth: "(a # actions) ! (length rs' - length rs - 1) =
               actions ! (length rs' - length (rs @ [r]) - 1)"
      unfolding idx by simp
    from ih len show ?thesis unfolding nth by simp
  qed
qed

lemma PostActionExecutor_ExecuteAll_failure:
  assumes "PostActionExecutor_ExecuteAll env postConfig execCtx w = ((rs, Some e), execCtx', w', l)"
  shows "\<exists>pc. postConfig = Some pc \<and>
           (if rs = [] then
              (\<exists>bcause. fst (buildPostPayloads env (post_Payloads pc) execCtx) = Some bcause
                 \<and> e = ExecutorError PhasePostActions ''build_payloads''
                         ''failed to build post payloads'' (Some bcause)
                 \<and> am_ExecutionError (ctx_Adapter execCtx') =
                     Some \<lparr>ee_Phase = PhasePostActions, ee_Step = ''build_payloads'',
                           ee_Message = ErrorString bcause\<rparr>)
            else
              length rs \<le> length (post_PostActions pc)
              \<and> (\<exists>m verr. e = ExecutorError PhasePostActions
                                 (pa_Name (post_PostActions pc ! (length rs - 1))) m (Some verr)
                    \<and> par_Name (last rs) = pa_Name (post_PostActions pc ! (length rs - 1))
                    \<and> par_Status (last rs) = StatusFailed \<and> par_Error (last rs) = Some verr)
              \<and> am_ExecutionError (ctx_Adapter execCtx') =
                  Some \<lparr>ee_Phase = PhasePostActions,
                        ee_Step = pa_Name (post_PostActions pc ! (length rs - 1)),
                        ee_Message = ErrorString e\<rparr>)"
proof (cases postConfig)
  case None
  with assms show ?thesis by (simp add: PostActionExecutor_ExecuteAll_def)
next
  case (Some pc)
  define B where "B = (if post_Payloads pc \<noteq> []
                 then buildPostPayloads env (post_Payloads pc) execCtx
                 else (None, execCtx, []))"
  obtain berr c1 l1 where b: "B = (berr, c1, l1)" by (metis prod_cases3)
  show ?thesis
  proof (cases berr)
    case (Some be)
    with b have bp: "buildPostPayloads env (post_Payloads pc) execCtx = (Some be, c1, l1)"
      by (auto simp: B_def split: if_splits)
    from assms \<open>postConfig = Some pc\<close> b Some
    have "rs = []"
      "e = ExecutorError PhasePostActions ''build_payloads'' ''failed to build post payloads'' (Some be)"
      "execCtx' = setExecutionError PhasePostActions ''build_payloads'' (ErrorString be) c1"
      by (simp_all add: PostActionExecutor_ExecuteAll_def B_def[symmetric])
    with bp \<open>postConfig = Some pc\<close> show ?thesis by (simp add: setExecutionError_def)
  next
    case None
    obtain q c2 w2 l2 where lp:
      "PostActionExecutor_loop env (post_PostActions pc) [] c1 w = (q, c2, w2, l2)"
      by (metis prod_cases4)
    with assms \<open>postConfig = Some pc\<close> b None have eq: "q = (rs, Some e)" "c2 = execCtx'"
      by (simp_all add: PostActionExecutor_ExecuteAll_def B_def[symmetric])
    from PostActionExecutor_loop_failure[OF lp[unfolded eq]] \<open>postConfig = Some pc\<close>
    show ?thesis by (auto simp: setExecutionError_def)
  qed
qed

text \<open>
  C3 (as amended). When the preconditions phase fails on an API call or on the parsing
  of its response, the step sets the execution error of the adapter metadata to the
  phase, step and message of that failure. Provided \<open>SetError\<close> leaves that field alone,
  the execution context of the result still holds it when the post-actions phase
  succeeds. When the post-actions phase fails with an error, that error is the error of
  the result, and the execution context of the result holds the execution error of the
  post-actions phase instead: when no post action was run, the step is
  \<open>build_payloads\<close> and the message is the text of the error of the payload build, which
  the returned error wraps; otherwise the step is the name of the last post action run,
  whose result is the last one recorded and is failed, and the message is the text of
  the returned error, which names that post action. The last recorded failure wins.
\<close>

theorem C3_last_failure_wins:
  assumes frame: "\<And>reason msg c. am_ExecutionError (ctx_Adapter (SetError env reason msg c)) =
                                   am_ExecutionError (ctx_Adapter c)"
      and parse: "parseEventData env (Some e) = Inr eventData"
      and extr: "executeParamExtraction env (NewExecutionContext env e eventData) w =
                   (None, execCtx1, w1)"
      and pre: "PreconditionExecutor_ExecuteAll env (cfg_Preconditions config) execCtx1 w1 =
                  (outcome, execCtx2, w2, l2)"
      and failed: "po_Error outcome = Some (ExecutorError PhasePreconditions step msg (Some cause))"
      and kind: "msg = ''API call failed'' \<or> msg = ''failed to parse API response''"
      and post: "PostActionExecutor_ExecuteAll env (cfg_Post config)
                   (SetError env ''PreconditionFailed''
                      (ErrorString (ExecutorError PhasePreconditions step msg (Some cause)))
                      execCtx2) w2 =
                   ((postResults, posterr), execCtx4, w4, l4)"
      and run: "Execute env config (Some e) w = (result, w', l)"
  shows "am_ExecutionError (ctx_Adapter execCtx2) =
           Some \<lparr>ee_Phase = PhasePreconditions, ee_Step = step, ee_Message = ErrorString cause\<rparr>
         \<and> er_ExecutionContext result = Some execCtx4
         \<and> (posterr = None \<longrightarrow>
              am_ExecutionError (ctx_Adapter execCtx4) =
                Some \<lparr>ee_Phase = PhasePreconditions, ee_Step = step,
                      ee_Message = ErrorString cause\<rparr>)
         \<and> (\<forall>perr. posterr = Some perr \<longrightarrow>
              er_Error result = Some perr
              \<and> (\<exists>pc. cfg_Post config = Some pc \<and>
                   (if postResults = [] then
                      (\<exists>bcause.
                          fst (buildPostPayloads env (post_Payloads pc)
                                 (SetError env ''PreconditionFailed''
                                    (ErrorString (ExecutorError PhasePreconditions step msg
                                                    (Some cause)))
                                    execCtx2)) = Some bcause
                        \<and> perr = ExecutorError PhasePostActions ''build_payloads''
                                    ''failed to build post payloads'' (Some bcause)
                        \<and> am_ExecutionError (ctx_Adapter execCtx4) =
                            Some \<lparr>ee_Phase = PhasePostActions, ee_Step = ''build_payloads'',
                                  ee_Message = ErrorString bcause\<rparr>)
                    else
                      length postResults \<le> length (post_PostActions pc)
                      \<and> (\<exists>m verr.
                             perr = ExecutorError PhasePostActions
                                      (pa_Name (post_PostActions pc ! (length postResults - 1)))
                                      m (Some verr)
                           \<and> par_Name (last postResults) =
                               pa_Name (post_PostActions pc ! (length postResults - 1))
                           \<and> par_Status (last postResults) = StatusFailed
                           \<and> par_Error (last postResults) = Some verr)
                      \<and> am_ExecutionError (ctx_Adapter execCtx4) =
                          Some \<lparr>ee_Phase = PhasePostActions,
                                ee_Step = pa_Name (post_PostActions pc ! (length postResults - 1)),
                                ee_Message = ErrorString perr\<rparr>)))"
proof -
  let ?perr = "ExecutorError PhasePreconditions step msg (Some cause)"
  let ?c2 = "SetError env ''PreconditionFailed'' (ErrorString ?perr) execCtx2"
  let ?r2 = "(initialResult e execCtx1)\<lparr>er_Phase := PhasePreconditions,
                   er_PreconditionResults := Some (po_Results outcome),
                   er_Status := StatusFailed, er_Error := Some ?perr,
                   er_ErrorReason := ''precondition evaluation failed''\<rparr>"
  have first: "am_ExecutionError (ctx_Adapter execCtx2) =
           Some \<lparr>ee_Phase = PhasePreconditions, ee_Step = step, ee_Message = ErrorString cause\<rparr>"
    using loop_api_failure_recorded[of env "cfg_Preconditions config" "[]" execCtx1 w1 step msg cause]
      pre failed kind
    by (simp add: PreconditionExecutor_ExecuteAll_def)
  from Execute_Preconditions_error[OF pre failed] obtain l2' where p2:
    "Execute_Preconditions env config (initialResult e execCtx1) execCtx1 w1 = (?r2, ?c2, w2, l2')"
    by blast
  have "er_Status ?r2 = StatusFailed" by simp
  from Execute_Resources_failed[OF this, of env config ?c2 w2] obtain l3 where p3:
    "Execute_Resources env config ?r2 ?c2 w2 = (?r2\<lparr>er_Phase := PhaseResources\<rparr>, ?c2, w2, l3)"
    by blast
  from Execute_PostActions_result[OF post, of "?r2\<lparr>er_Phase := PhaseResources\<rparr>"]
  obtain result4 l4' where r4:
    "Execute_PostActions env config (?r2\<lparr>er_Phase := PhaseResources\<rparr>) ?c2 w2 = (result4, w4, l4')"
    "er_ExecutionContext result4 = Some execCtx4"
    "er_Error result4 = (if posterr = None then er_Error (?r2\<lparr>er_Phase := PhaseResources\<rparr>)
                         else posterr)"
    by blast
  from Execute_phases[OF parse extr p2 p3 r4(1)] run have eq: "result = result4"
    by auto
  from PostActionExecutor_ExecuteAll_ExecutionError[OF post] frame first
  have kept: "posterr = None \<longrightarrow> am_ExecutionError (ctx_Adapter execCtx4) =
                Some \<lparr>ee_Phase = PhasePreconditions, ee_Step = step,
                      ee_Message = ErrorString cause\<rparr>"
    by auto
  have over: "er_Error result = Some perr
              \<and> (\<exists>pc. cfg_Post config = Some pc \<and>
                   (if postResults = [] then
                      (\<exists>bcause.
                          fst (buildPostPayloads env (post_Payloads pc) ?c2) = Some bcause
                        \<and> perr = ExecutorError PhasePostActions ''build_payloads''
                                    ''failed to build post payloads'' (Some bcause)
                        \<and> am_ExecutionError (ctx_Adapter execCtx4) =
                            Some \<lparr>ee_Phase = PhasePostActions, ee_Step = ''build_payloads'',
                                  ee_Message = ErrorString bcause\<rparr>)
                    else
                      length postResults \<le> length (post_PostActions pc)
                      \<and> (\<exists>m verr.
                             perr = ExecutorError PhasePostActions
                                      (pa_Name (post_PostActions pc ! (length postResults - 1)))
                                      m (Some verr)
                           \<and> par_Name (last postResults) =
                               pa_Name (post_PostActions pc ! (length postResults - 1))
                           \<and> par_Status (last postResults) = StatusFailed
                           \<and> par_Error (last postResults) = Some verr)
                      \<and> am_ExecutionError (ctx_Adapter execCtx4) =
                          Some \<lparr>ee_Phase = PhasePostActions,
                                ee_Step = pa_Name (post_PostActions pc ! (length postResults - 1)),
                                ee_Message = ErrorString perr\<rparr>))"
    if p: "posterr = Some perr" for perr
  proof -
    from r4(3) p eq have "er_Error result = Some perr" by simp
    with PostActionExecutor_ExecuteAll_failure[OF post[unfolded p]] show ?thesis by simp
  qed
  from first eq r4(2) kept over show ?thesis by blast
qed

theorem C3_witness:
  "(\<forall>reason msg c. am_ExecutionError (ctx_Adapter (SetError demo_env reason msg c)) =
                     am_ExecutionError (ctx_Adapter c))
   \<and> po_Error (fst (PreconditionExecutor_ExecuteAll demo_env [demo_Down] demo_ctx1 0)) =
       Some (ExecutorError PhasePreconditions ''check'' ''API call failed''
               (Some (APIError KindTransport ''GET'' ''/down'' None None
                        (Some (OtherError ''connection refused'')))))
   \<and> er_Status (fst (Execute demo_env (demo_config [demo_Down] ''/report'')
                        (Some (demo_event ''{id:c-1}'')) 0)) = StatusFailed
   \<and> map_option (am_ExecutionError \<circ> ctx_Adapter)
        (er_ExecutionContext (fst (Execute demo_env (demo_config [demo_Down] ''/report'')
                                     (Some (demo_event ''{id:c-1}'')) 0))) =
       Some (Some \<lparr>ee_Phase = PhasePreconditions, ee_Step = ''check'',
                   ee_Message = ErrorString (APIError KindTransport ''GET'' ''/down'' None None
                                               (Some (OtherError ''connection refused'')))\<rparr>)
   \<and> er_Error (fst (Execute demo_env (demo_config [demo_Down] ''/missing'')
                       (Some (demo_event ''{id:c-1}'')) 0)) =
       Some (ExecutorError PhasePostActions ''report'' ''API call returned non-success status''
               (Some (APIError KindStatus ''POST'' ''/missing'' (Some 404)
                        (Some ''not found'') None)))
   \<and> map_option (am_ExecutionError \<circ> ctx_Adapter)
        (er_ExecutionContext (fst (Execute demo_env (demo_config [demo_Down] ''/missing'')
                                     (Some (demo_event ''{id:c-1}'')) 0))) =
       Some (Some \<lparr>ee_Phase = PhasePostActions, ee_Step = ''report'',
                   ee_Message = ErrorString
                     (ExecutorError PhasePostActions ''report''
                        ''API call returned non-success status''
                        (Some (APIError KindStatus ''POST'' ''/missing'' (Some 404)
                                 (Some ''not found'') None)))\<rparr>)
   \<and> map_option (am_ExecutionError \<circ> ctx_Adapter)
        (er_ExecutionContext (fst (Execute demo_env demo_config_nobuild
                                     (Some (demo_event ''{id:c-1}'')) 0))) =
       Some (Some \<lparr>ee_Phase = PhasePostActions, ee_Step = ''build_payloads'',
                   ee_Message = ErrorString
                     (Errorf ''payload '%s' has neither Build nor BuildRefContent''
                        [S ''statusPayload''])\<rparr>)"
proof -
  let ?cause = "APIError KindTransport ''GET'' ''/down'' None None
                  (Some (OtherError ''connection refused''))"
  let ?perr = "ExecutorError PhasePreconditions ''check'' ''API call failed'' (Some ?cause)"
  let ?e2 = "ExecutorError PhasePostActions ''report'' ''API call returned non-success status''
               (Some (APIError KindStatus ''POST'' ''/missing'' (Some 404)
                        (Some ''not found'') None))"
  let ?b3 = "Errorf ''payload '%s' has neither Build nor BuildRefContent'' [S ''statusPayload'']"
  let ?e3 = "ExecutorError PhasePostActions ''build_payloads'' ''failed to build post payloads''
               (Some ?b3)"
  define Y where "Y = PreconditionExecutor_ExecuteAll demo_env [demo_Down] demo_ctx1 0"
  define c2 where "c2 = SetError demo_env ''PreconditionFailed'' (ErrorString ?perr) (fst (snd Y))"
  define X1 where "X1 = Execute demo_env (demo_config [demo_Down] ''/report'')
                          (Some (demo_event ''{id:c-1}'')) 0"
  define X2 where "X2 = Execute demo_env (demo_config [demo_Down] ''/missing'')
                          (Some (demo_event ''{id:c-1}'')) 0"
  define X3 where "X3 = Execute demo_env demo_config_nobuild (Some (demo_event ''{id:c-1}'')) 0"
  define P1 where "P1 = PostActionExecutor_ExecuteAll demo_env
                          (cfg_Post (demo_config [demo_Down] ''/report'')) c2 1"
  define P2 where "P2 = PostActionExecutor_ExecuteAll demo_env
                          (cfg_Post (demo_config [demo_Down] ''/missing'')) c2 1"
  define P3 where "P3 = PostActionExecutor_ExecuteAll demo_env (cfg_Post demo_config_nobuild) c2 1"
  have frame: "\<And>reason msg c. am_ExecutionError (ctx_Adapter (SetError demo_env reason msg c)) =
                                 am_ExecutionError (ctx_Adapter c)"
    by (simp add: demo_env_def)
  have pre1: "PreconditionExecutor_ExecuteAll demo_env
                (cfg_Preconditions (demo_config [demo_Down] ''/report'')) demo_ctx1 0 =
                (fst Y, fst (snd Y), 1, snd (snd (snd Y)))"
    and pre2: "PreconditionExecutor_ExecuteAll demo_env
                (cfg_Preconditions (demo_config [demo_Down] ''/missing'')) demo_ctx1 0 =
                (fst Y, fst (snd Y), 1, snd (snd (snd Y)))"
    and pre3: "PreconditionExecutor_ExecuteAll demo_env
                (cfg_Preconditions demo_config_nobuild) demo_ctx1 0 =
                (fst Y, fst (snd Y), 1, snd (snd (snd Y)))"
    unfolding Y_def by (simp_all add: demo_defs demo_config_nobuild_def exec_defs demo_ctx1_def)
  have failed: "po_Error (fst Y) = Some ?perr"
    unfolding Y_def by (simp add: demo_defs exec_defs demo_ctx1_def)
  have kind: "''API call failed'' = ''API call failed'' \<or>
              ''API call failed'' = ''failed to parse API response''"
    by simp
  have post1: "PostActionExecutor_ExecuteAll demo_env
                 (cfg_Post (demo_config [demo_Down] ''/report''))
                 (SetError demo_env ''PreconditionFailed'' (ErrorString ?perr) (fst (snd Y))) 1 =
                 ((fst (fst P1), None), fst (snd P1), fst (snd (snd P1)), snd (snd (snd P1)))"
    unfolding P1_def c2_def Y_def by (simp add: demo_defs exec_defs demo_ctx1_def)
  have post2: "PostActionExecutor_ExecuteAll demo_env
                 (cfg_Post (demo_config [demo_Down] ''/missing''))
                 (SetError demo_env ''PreconditionFailed'' (ErrorString ?perr) (fst (snd Y))) 1 =
                 ((fst (fst P2), Some ?e2), fst (snd P2), fst (snd (snd P2)), snd (snd (snd P2)))"
    unfolding P2_def c2_def Y_def by (simp add: demo_defs exec_defs demo_ctx1_def)
  have post3: "PostActionExecutor_ExecuteAll demo_env (cfg_Post demo_config_nobuild)
                 (SetError demo_env ''PreconditionFailed'' (ErrorString ?perr) (fst (snd Y))) 1 =
                 ((fst (fst P3), Some ?e3), fst (snd P3), fst (snd (snd P3)), snd (snd (snd P3)))"
    unfolding P3_def c2_def Y_def
    by (simp add: demo_defs demo_config_nobuild_def exec_defs demo_ctx1_def)
  have rs2: "map par_Name (fst (fst P2)) = [''report'']"
    unfolding P2_def c2_def Y_def by (simp add: demo_defs exec_defs demo_ctx1_def)
  have rs3: "fst (fst P3) = []"
    unfolding P3_def c2_def Y_def
    by (simp add: demo_defs demo_config_nobuild_def exec_defs demo_ctx1_def)
  have pc2: "cfg_Post (demo_config [demo_Down] ''/missing'') =
               Some \<lparr>post_Payloads = [], post_PostActions = [demo_report ''/missing'']\<rparr>"
    by (simp add: demo_config_def)
  have run1: "Execute demo_env (demo_config [demo_Down] ''/report'')
                (Some (demo_event ''{id:c-1}'')) 0 = (fst X1, fst (snd X1), snd (snd X1))"
    and run2: "Execute demo_env (demo_config [demo_Down] ''/missing'')
                (Some (demo_event ''{id:c-1}'')) 0 = (fst X2, fst (snd X2), snd (snd X2))"
    and run3: "Execute demo_env demo_config_nobuild
                (Some (demo_event ''{id:c-1}'')) 0 = (fst X3, fst (snd X3), snd (snd X3))"
    by (simp_all add: X1_def X2_def X3_def)
  have st: "er_Status (fst X1) = StatusFailed"
    unfolding X1_def by (simp add: demo_defs exec_defs)
  from C3_last_failure_wins[OF frame demo_parse demo_extract pre1 failed kind post1 run1]
  have a: "map_option (am_ExecutionError \<circ> ctx_Adapter) (er_ExecutionContext (fst X1)) =
             Some (Some \<lparr>ee_Phase = PhasePreconditions, ee_Step = ''check'',
                         ee_Message = ErrorString ?cause\<rparr>)"
    by simp
  from rs2 have ne2: "fst (fst P2) \<noteq> []" and len2: "length (fst (fst P2)) = 1"
    by (auto simp: map_eq_Cons_conv)
  from C3_last_failure_wins[OF frame demo_parse demo_extract pre2 failed kind post2 run2]
  have b: "er_Error (fst X2) = Some ?e2"
    and b': "map_option (am_ExecutionError \<circ> ctx_Adapter) (er_ExecutionContext (fst X2)) =
             Some (Some \<lparr>ee_Phase = PhasePostActions, ee_Step = ''report'',
                         ee_Message = ErrorString ?e2\<rparr>)"
    using ne2 len2 by (simp_all add: pc2 demo_report_def)
  from C3_last_failure_wins[OF frame demo_parse demo_extract pre3 failed kind post3 run3]
  have c: "map_option (am_ExecutionError \<circ> ctx_Adapter) (er_ExecutionContext (fst X3)) =
             Some (Some \<lparr>ee_Phase = PhasePostActions, ee_Step = ''build_payloads'',
                         ee_Message = ErrorString ?b3\<rparr>)"
    using rs3 by auto
  from frame failed st a b b' c show ?thesis unfolding X1_def X2_def X3_def Y_def by simp
qed

text \<open>
  C3 as stated fails: the precondition \<open>check\<close> cannot reach the API and records its
  failure; the post action \<open>report\<close> then gets a 404, and the execution context of the
  result holds the failure of the post action, not the first one.
\<close>

theorem C3_counterexample:
  "am_ExecutionError (ctx_Adapter (fst (snd (PreconditionExecutor_ExecuteAll demo_env [demo_Down]
      (demo_ctx\<lparr>ctx_EventData := [(''id'', JString ''c-1'')],
                ctx_Params := [''clusterId'' \<mapsto> JString ''c-1'']\<rparr>) 0)))) =
     Some \<lparr>ee_Phase = PhasePreconditions, ee_Step = ''check'',
           ee_Message = ErrorString (APIError KindTransport ''GET'' ''/down'' None None
                                       (Some (OtherError ''connection refused'')))\<rparr>
   \<and> map_option (am_ExecutionError \<circ> ctx_Adapter)
        (er_ExecutionContext (fst (Execute demo_env (demo_config [demo_Down] ''/missing'')
                                     (Some (demo_event ''{id:c-1}'')) 0))) =
     Some (Some \<lparr>ee_Phase = PhasePostActions, ee_Step = ''report'',
                 ee_Message = ErrorString
                   (ExecutorError PhasePostActions ''report''
                      ''API call returned non-success status''
                      (Some (APIError KindStatus ''POST'' ''/missing'' (Some 404)
                               (Some ''not found'') None)))\<rparr>)"
  by (simp add: demo_defs exec_defs)

section \<open>The post-action results\<close>

lemma PostActionExecutor_loop_results:
  "\<exists>more. fst (fst (PostActionExecutor_loop env actions rs execCtx w)) = rs @ more"
proof (induction actions arbitrary: rs w)
  case Nil
  then show ?case by simp
next
  case (Cons a actions)
  obtain r e w1 l1 where ep: "executePostAction env a execCtx w = ((r, e), w1, l1)"
    by (metis prod_cases3 surj_pair)
  show ?case
  proof (cases e)
    case (Some x)
    with ep show ?thesis by simp
  next
    case None
    with ep have h: "fst (fst (PostActionExecutor_loop env (a # actions) rs execCtx w)) =
         fst (fst (PostActionExecutor_loop env actions (rs @ [r]) execCtx w1))"
      by (simp split: prod.splits)
    from Cons.IH[of "rs @ [r]" w1] show ?thesis unfolding h by auto
  qed
qed

text \<open>
  C10. A post action with an API call has \<open>apiCallMade\<close> set whatever the call
  returned; when there is a response, its body and status code are in the result, also
  when the validation fails; a failed validation marks the result failed and attaches
  the validation error, which for a response outside the 2xx range is the status error
  with that body and code; and the result is appended to the results of the executor,
  as the last one when the action failed.
\<close>

theorem C10_post_action_response_recorded:
  assumes act: "pa_APICall action = Some apiCall"
      and call: "ExecuteAPICall env apiCall execCtx w = ((resp, url, err), w')"
      and run: "executePostAction env action execCtx w = ((result, rerr), w'', l)"
  shows "par_APICallMade result
         \<and> (\<forall>r. resp = Some r \<longrightarrow>
               par_APIResponse result = Some (resp_Body r)
               \<and> par_HTTPStatus result = resp_StatusCode r)
         \<and> (\<forall>validationErr.
               ValidateAPIResponse resp err (api_Method apiCall) url = Some validationErr \<longrightarrow>
               par_Status result = StatusFailed \<and> par_Error result = Some validationErr
               \<and> rerr \<noteq> None)
         \<and> (\<forall>r. resp = Some r \<and> err = None \<and> \<not> IsSuccess r \<longrightarrow>
               par_Status result = StatusFailed
               \<and> par_Error result =
                   Some (APIError KindStatus (api_Method apiCall) url
                           (Some (resp_StatusCode r)) (Some (resp_Body r)) None)
               \<and> par_APIResponse result = Some (resp_Body r)
               \<and> par_HTTPStatus result = resp_StatusCode r)
         \<and> (\<exists>more. fst (fst (PostActionExecutor_loop env (action # rest) results execCtx w)) =
                      results @ result # more
                    \<and> (rerr \<noteq> None \<longrightarrow> more = []))"
proof -
  have made: "par_APICallMade result"
    using act call run
    by (auto simp: executePostAction_def PostActionExecutor_executeAPICall_def Let_def
             split: option.splits prod.splits)
  have resp: "\<forall>r. resp = Some r \<longrightarrow>
               par_APIResponse result = Some (resp_Body r)
               \<and> par_HTTPStatus result = resp_StatusCode r"
    using act call run
    by (auto simp: executePostAction_def PostActionExecutor_executeAPICall_def Let_def
             split: option.splits prod.splits)
  have val: "\<forall>validationErr.
               ValidateAPIResponse resp err (api_Method apiCall) url = Some validationErr \<longrightarrow>
               par_Status result = StatusFailed \<and> par_Error result = Some validationErr
               \<and> rerr \<noteq> None"
    using act call run
    by (auto simp: executePostAction_def PostActionExecutor_executeAPICall_def Let_def
             split: option.splits prod.splits)
  have non2xx: "\<forall>r. resp = Some r \<and> err = None \<and> \<not> IsSuccess r \<longrightarrow>
               par_Status result = StatusFailed
               \<and> par_Error result =
                   Some (APIError KindStatus (api_Method apiCall) url
                           (Some (resp_StatusCode r)) (Some (resp_Body r)) None)
               \<and> par_APIResponse result = Some (resp_Body r)
               \<and> par_HTTPStatus result = resp_StatusCode r"
    using val resp by (auto simp: ValidateAPIResponse_def)
  have rec: "\<exists>more. fst (fst (PostActionExecutor_loop env (action # rest) results execCtx w)) =
                      results @ result # more
                    \<and> (rerr \<noteq> None \<longrightarrow> more = [])"
  proof (cases rerr)
    case (Some x)
    with run show ?thesis by simp
  next
    case None
    with run have h: "fst (fst (PostActionExecutor_loop env (action # rest) results execCtx w)) =
         fst (fst (PostActionExecutor_loop env rest (results @ [result]) execCtx w''))"
      by (simp split: prod.splits)
    from PostActionExecutor_loop_results[of env rest "results @ [result]" execCtx w''] None
    show ?thesis unfolding h by auto
  qed
  from made resp val non2xx rec show ?thesis by blast
qed

theorem C10_witness:
  "ExecuteAPICall demo_env (the (pa_APICall (demo_report ''/missing''))) demo_ctx 0 =
     ((Some \<lparr>resp_Body = ''not found'', resp_StatusCode = 404\<rparr>, ''/missing'', None), 1)
   \<and> \<not> IsSuccess \<lparr>resp_Body = ''not found'', resp_StatusCode = 404\<rparr>
   \<and> fst (fst (executePostAction demo_env (demo_report ''/missing'') demo_ctx 0)) =
       \<lparr>par_Name = ''report'', par_Status = StatusFailed, par_APICallMade = True,
        par_APIResponse = Some ''not found'', par_HTTPStatus = 404,
        par_Error = Some (APIError KindStatus ''POST'' ''/missing'' (Some 404)
                            (Some ''not found'') None)\<rparr>
   \<and> fst (fst (PostActionExecutor_loop demo_env
                  [demo_report ''/missing'', demo_report ''/report''] [] demo_ctx 0)) =
       [fst (fst (executePostAction demo_env (demo_report ''/missing'') demo_ctx 0))]"
proof -
  define X where "X = executePostAction demo_env (demo_report ''/missing'') demo_ctx 0"
  let ?api = "\<lparr>api_Method = ''POST'', api_URL = ''/missing'', api_Headers = [],
                api_Body = ''{{ .statusPayload }}''\<rparr>"
  let ?resp = "\<lparr>resp_Body = ''not found'', resp_StatusCode = 404\<rparr>"
  have act: "pa_APICall (demo_report ''/missing'') = Some ?api"
    by (simp add: demo_defs)
  have call: "ExecuteAPICall demo_env ?api demo_ctx 0 = ((Some ?resp, ''/missing'', None), 1)"
    by (simp add: demo_defs)
  have run: "executePostAction demo_env (demo_report ''/missing'') demo_ctx 0 =
               ((fst (fst X), snd (fst X)), fst (snd X), snd (snd X))"
    by (simp add: X_def)
  have bad: "\<not> IsSuccess ?resp" by (simp add: IsSuccess_def)
  have name: "par_Name (fst (fst X)) = ''report''"
    unfolding X_def by (simp add: demo_defs exec_defs)
  have err: "snd (fst X) \<noteq> None"
    unfolding X_def by (simp add: demo_defs exec_defs)
  from C10_post_action_response_recorded[OF act call run,
         of "[demo_report ''/report'']" "[]"] bad name err act call
  show ?thesis unfolding X_def
    by (auto intro: PostActionResult.equality)
qed

section \<open>The ManifestWork wrapper: properties\<close>

lemma concreteManifests_eq:
  "concreteManifests rs = map (the \<circ> rta_Manifest) (filter (\<lambda>r. rta_Manifest r \<noteq> None) rs)"
  by (induction rs) (auto split: option.splits)

text \<open>
  C4. When at least one resource to apply has a manifest, the workload manifests of the
  wrapper are the manifests of the resources, in order, with the nil entries skipped (the
  manifests of the template are not among them); when the list is empty or every entry is
  nil, they are the manifests of the template; in both cases the namespace is the consumer
  id and the name, labels and annotations are those of the template.
\<close>

theorem C4_manifest_work_build:
  "((\<exists>r \<in> set resources. rta_Manifest r \<noteq> None) \<longrightarrow>
      mw_Manifests (buildManifestWork template resources consumerName) =
        map (the \<circ> rta_Manifest) (filter (\<lambda>r. rta_Manifest r \<noteq> None) resources))
   \<and> ((resources = [] \<or> (\<forall>r \<in> set resources. rta_Manifest r = None)) \<longrightarrow>
        mw_Manifests (buildManifestWork template resources consumerName) = mw_Manifests template)
   \<and> mw_Namespace (buildManifestWork template resources consumerName) = consumerName
   \<and> mw_Name (buildManifestWork template resources consumerName) = mw_Name template
   \<and> mw_Labels (buildManifestWork template resources consumerName) = mw_Labels template
   \<and> mw_Annotations (buildManifestWork template resources consumerName) = mw_Annotations template"
proof -
  have a: "(\<exists>r \<in> set resources. rta_Manifest r \<noteq> None) \<Longrightarrow>
             resources \<noteq> [] \<and> concreteManifests resources \<noteq> []"
    by (auto simp: concreteManifests_eq filter_empty_conv)
  have b: "(\<forall>r \<in> set resources. rta_Manifest r = None) \<Longrightarrow> concreteManifests resources = []"
    by (auto simp: concreteManifests_eq filter_empty_conv)
  show ?thesis
    using a b by (auto simp: buildManifestWork_def Let_def concreteManifests_eq)
qed

theorem C4_witness:
  "mw_Manifests (buildManifestWork demo_template
       [\<lparr>rta_Name = ''skipped'', rta_Manifest = None\<rparr>,
        \<lparr>rta_Name = ''cm'', rta_Manifest = Some (JObject [(''kind'', JString ''Secret'')])\<rparr>]
       ''consumer-1'') = [JObject [(''kind'', JString ''Secret'')]]
   \<and> mw_Manifests (buildManifestWork demo_template
       [\<lparr>rta_Name = ''manifestwork'', rta_Manifest = None\<rparr>] ''cluster1'') =
       [JObject [(''kind'', JString ''Namespace'')], JObject [(''kind'', JString ''ConfigMap'')]]
   \<and> mw_Manifests (buildManifestWork demo_template [] ''cluster1'') =
       [JObject [(''kind'', JString ''Namespace'')], JObject [(''kind'', JString ''ConfigMap'')]]
   \<and> mw_Namespace (buildManifestWork demo_template
       [\<lparr>rta_Name = ''manifestwork'', rta_Manifest = None\<rparr>] ''cluster1'') = ''cluster1''
   \<and> mw_Name (buildManifestWork demo_template
       [\<lparr>rta_Name = ''manifestwork'', rta_Manifest = None\<rparr>] ''cluster1'') = ''test-mw''"
  using C4_manifest_work_build[of
          "[\<lparr>rta_Name = ''skipped'', rta_Manifest = None\<rparr>,
            \<lparr>rta_Name = ''cm'', rta_Manifest = Some (JObject [(''kind'', JString ''Secret'')])\<rparr>]"
          demo_template "''consumer-1''"]
        C4_manifest_work_build[of "[\<lparr>rta_Name = ''manifestwork'', rta_Manifest = None\<rparr>]"
          demo_template "''cluster1''"]
        C4_manifest_work_build[of "[]" demo_template "''cluster1''"]
  by (simp add: demo_template_def)

section \<open>The deep copier: properties\<close>

lemma deepCopy_extends:
  "(deepCopy d h v = Some (v', h') \<longrightarrow> (\<exists>new. h' = h @ new))"
  "(deepCopyEntries d h kvs = Some (kvs', h') \<longrightarrow> (\<exists>new. h' = h @ new))"
  "(deepCopyElems d h vs = Some (vs', h') \<longrightarrow> (\<exists>new. h' = h @ new))"
proof (induction d h v and d h kvs and d h vs arbitrary: v' h' and kvs' h' and vs' h'
       rule: deepCopy_deepCopyEntries_deepCopyElems.induct)
  case (7 d h a)
  then show ?case
    by (fastforce split: if_splits hobj.splits option.splits)
next
  case (9 d h a)
  then show ?case
    by (fastforce split: if_splits hobj.splits option.splits)
next
  case (11 d h k v kvs)
  then show ?case
    by (fastforce split: option.splits)
next
  case (13 d h v vs)
  then show ?case
    by (fastforce split: option.splits)
qed auto

lemma readout_frame:
  "readout d h v = Some t \<Longrightarrow> length h \<le> length h2 \<Longrightarrow> (\<forall>a < length h. h2 ! a = h ! a) \<Longrightarrow>
     readout d h2 v = Some t"
  "readoutEntries d h kvs = Some kts \<Longrightarrow> length h \<le> length h2 \<Longrightarrow>
     (\<forall>a < length h. h2 ! a = h ! a) \<Longrightarrow> readoutEntries d h2 kvs = Some kts"
  "readoutElems d h vs = Some ts \<Longrightarrow> length h \<le> length h2 \<Longrightarrow>
     (\<forall>a < length h. h2 ! a = h ! a) \<Longrightarrow> readoutElems d h2 vs = Some ts"
proof (induction d h v and d h kvs and d h vs arbitrary: t and kts and ts
       rule: readout_readoutEntries_readoutElems.induct)
  case (7 d h a)
  then show ?case
    by (auto split: if_splits hobj.splits)
next
  case (9 d h a)
  then show ?case
    by (auto split: if_splits hobj.splits)
next
  case (11 d h k v kvs)
  then show ?case
    by (auto split: option.splits)
next
  case (13 d h v vs)
  then show ?case
    by (auto split: option.splits)
qed auto

lemma frame_append: "length h \<le> length (h @ new) \<and> (\<forall>a < length h. (h @ new) ! a = h ! a)"
  by (simp add: nth_append)

lemma deepCopy_readout:
  "readout d h v = Some t \<Longrightarrow>
     (\<exists>v' h'. deepCopy d h v = Some (v', h') \<and> readout d h' v' = Some t)"
  "readoutEntries d h kvs = Some kts \<Longrightarrow>
     (\<exists>kvs' h'. deepCopyEntries d h kvs = Some (kvs', h') \<and> readoutEntries d h' kvs' = Some kts)"
  "readoutElems d h vs = Some ts \<Longrightarrow>
     (\<exists>vs' h'. deepCopyElems d h vs = Some (vs', h') \<and> readoutElems d h' vs' = Some ts)"
proof (induction d h v and d h kvs and d h vs arbitrary: t and kts and ts
       rule: deepCopy_deepCopyEntries_deepCopyElems.induct)
  case (7 d h a)
  from "7.prems" obtain kvs kts where a: "a < length h" and obj: "h ! a = MapObj kvs"
    and r: "readoutEntries d h kvs = Some kts" and t: "t = TMap kts"
    by (auto split: if_splits hobj.splits)
  from "7.IH"[OF a obj r] obtain kvs' h' where
    c: "deepCopyEntries d h kvs = Some (kvs', h')" and r': "readoutEntries d h' kvs' = Some kts"
    by blast
  have "readoutEntries d (h' @ [MapObj kvs']) kvs' = Some kts"
    using readout_frame(2)[OF r'] frame_append by blast
  with a obj c t show ?case by simp
next
  case (9 d h a)
  from "9.prems" obtain vs ts where a: "a < length h" and obj: "h ! a = SliceObj vs"
    and r: "readoutElems d h vs = Some ts" and t: "t = TSlice ts"
    by (auto split: if_splits hobj.splits)
  from "9.IH"[OF a obj r] obtain vs' h' where
    c: "deepCopyElems d h vs = Some (vs', h')" and r': "readoutElems d h' vs' = Some ts"
    by blast
  have "readoutElems d (h' @ [SliceObj vs']) vs' = Some ts"
    using readout_frame(3)[OF r'] frame_append by blast
  with a obj c t show ?case by simp
next
  case (11 d h k v kvs)
  from "11.prems" obtain t ts where rv: "readout d h v = Some t"
    and rk: "readoutEntries d h kvs = Some ts" and kts: "kts = (k, t) # ts"
    by (auto split: option.splits)
  from "11.IH"(1)[OF rv] obtain v' h1 where c1: "deepCopy d h v = Some (v', h1)"
    and r1: "readout d h1 v' = Some t"
    by blast
  from deepCopy_extends(1) c1 obtain new1 where e1: "h1 = h @ new1" by blast
  have rk1: "readoutEntries d h1 kvs = Some ts"
    using readout_frame(2)[OF rk] frame_append e1 by blast
  from "11.IH"(2)[OF c1 refl rk1] obtain kvs' h2 where
    c2: "deepCopyEntries d h1 kvs = Some (kvs', h2)" and r2: "readoutEntries d h2 kvs' = Some ts"
    by blast
  from deepCopy_extends(2) c2 obtain new2 where e2: "h2 = h1 @ new2" by blast
  have "readout d h2 v' = Some t"
    using readout_frame(1)[OF r1] frame_append e2 by blast
  with c1 c2 r2 kts show ?case by simp
next
  case (13 d h v vs)
  from "13.prems" obtain t ts' where rv: "readout d h v = Some t"
    and rk: "readoutElems d h vs = Some ts'" and kts: "ts = t # ts'"
    by (auto split: option.splits)
  from "13.IH"(1)[OF rv] obtain v' h1 where c1: "deepCopy d h v = Some (v', h1)"
    and r1: "readout d h1 v' = Some t"
    by blast
  from deepCopy_extends(1) c1 obtain new1 where e1: "h1 = h @ new1" by blast
  have rk1: "readoutElems d h1 vs = Some ts'"
    using readout_frame(3)[OF rk] frame_append e1 by blast
  from "13.IH"(2)[OF c1 refl rk1] obtain vs' h2 where
    c2: "deepCopyElems d h1 vs = Some (vs', h2)" and r2: "readoutElems d h2 vs' = Some ts'"
    by blast
  from deepCopy_extends(3) c2 obtain new2 where e2: "h2 = h1 @ new2" by blast
  have "readout d h2 v' = Some t"
    using readout_frame(1)[OF r1] frame_append e2 by blast
  with c1 c2 r2 kts show ?case by simp
qed auto

lemma val_ge_mono: "val_ge L v \<Longrightarrow> L' \<le> L \<Longrightarrow> val_ge L' v"
  by (auto simp: val_ge_def split: hval.splits)

lemma list_all_val_ge_mono: "list_all (val_ge L) vs \<Longrightarrow> L' \<le> L \<Longrightarrow> list_all (val_ge L') vs"
  by (induction vs) (auto intro: val_ge_mono)

lemma new_closed_refl: "new_closed L h h"
  by (auto simp: new_closed_def)

lemma new_closed_trans:
  "new_closed L h h1 \<Longrightarrow> new_closed L h1 h2 \<Longrightarrow> new_closed L h h2"
  unfolding new_closed_def
  apply (elim conjE exE)
  apply (rule conjI)
   apply force
  apply (intro allI impI)
  subgoal for new new' a
    by (cases "a < length h1") (auto simp: nth_append)
  done

lemma new_closed_snoc:
  "new_closed L h h1 \<Longrightarrow> list_all (val_ge L) (obj_vals obj) \<Longrightarrow> new_closed L h (h1 @ [obj])"
  unfolding new_closed_def
  apply (elim conjE exE)
  apply (rule conjI)
   apply force
  apply (intro allI impI)
  subgoal for new a
    by (cases "a < length h1") (auto simp: nth_append)
  done

lemma deepCopy_closed:
  "deepCopy d h v = Some (v', h') \<Longrightarrow> L \<le> length h \<Longrightarrow> val_ge L v' \<and> new_closed L h h'"
  "deepCopyEntries d h kvs = Some (kvs', h') \<Longrightarrow> L \<le> length h \<Longrightarrow>
     list_all (val_ge L) (map snd kvs') \<and> new_closed L h h'"
  "deepCopyElems d h vs = Some (vs', h') \<Longrightarrow> L \<le> length h \<Longrightarrow>
     list_all (val_ge L) vs' \<and> new_closed L h h'"
proof (induction d h v and d h kvs and d h vs arbitrary: v' h' and kvs' h' and vs' h'
       rule: deepCopy_deepCopyEntries_deepCopyElems.induct)
  case (7 d h a)
  from "7.prems"(1) obtain kvs kvs1 h1 where a: "a < length h" and obj: "h ! a = MapObj kvs"
    and c: "deepCopyEntries d h kvs = Some (kvs1, h1)"
    and res: "v' = HMap (length h1)" "h' = h1 @ [MapObj kvs1]"
    by (auto split: if_splits hobj.splits option.splits)
  from "7.IH"[OF a obj c "7.prems"(2)]
  have vs: "list_all (val_ge L) (map snd kvs1)" and cl: "new_closed L h h1" by auto
  from cl have "length h \<le> length h1" by (auto simp: new_closed_def)
  with "7.prems"(2) res(1) have "val_ge L v'" by (simp add: val_ge_def)
  moreover have "new_closed L h h'"
    unfolding res(2) using cl vs by (intro new_closed_snoc) (auto simp: obj_vals_def)
  ultimately show ?case by simp
next
  case (9 d h a)
  from "9.prems"(1) obtain vs vs1 h1 where a: "a < length h" and obj: "h ! a = SliceObj vs"
    and c: "deepCopyElems d h vs = Some (vs1, h1)"
    and res: "v' = HSlice (length h1)" "h' = h1 @ [SliceObj vs1]"
    by (auto split: if_splits hobj.splits option.splits)
  from "9.IH"[OF a obj c "9.prems"(2)]
  have vs: "list_all (val_ge L) vs1" and cl: "new_closed L h h1" by auto
  from cl have "length h \<le> length h1" by (auto simp: new_closed_def)
  with "9.prems"(2) res(1) have "val_ge L v'" by (simp add: val_ge_def)
  moreover have "new_closed L h h'"
    unfolding res(2) using cl vs by (intro new_closed_snoc) (auto simp: obj_vals_def)
  ultimately show ?case by simp
next
  case (11 d h k v kvs)
  from "11.prems"(1) obtain v1 h1 kvs2 where c1: "deepCopy d h v = Some (v1, h1)"
    and c2: "deepCopyEntries d h1 kvs = Some (kvs2, h')" and res: "kvs' = (k, v1) # kvs2"
    by (auto split: option.splits)
  from "11.IH"(1)[OF c1 "11.prems"(2)] have v1: "val_ge L v1" and cl1: "new_closed L h h1"
    by auto
  from cl1 "11.prems"(2) have "L \<le> length h1" by (auto simp: new_closed_def)
  from "11.IH"(2)[OF c1 refl c2 this]
  have "list_all (val_ge L) (map snd kvs2)" and "new_closed L h1 h'" by auto
  with v1 cl1 res show ?case by (auto intro: new_closed_trans)
next
  case (13 d h v vs)
  from "13.prems"(1) obtain v1 h1 vs2 where c1: "deepCopy d h v = Some (v1, h1)"
    and c2: "deepCopyElems d h1 vs = Some (vs2, h')" and res: "vs' = v1 # vs2"
    by (auto split: option.splits)
  from "13.IH"(1)[OF c1 "13.prems"(2)] have v1: "val_ge L v1" and cl1: "new_closed L h h1"
    by auto
  from cl1 "13.prems"(2) have "L \<le> length h1" by (auto simp: new_closed_def)
  from "13.IH"(2)[OF c1 refl c2 this]
  have "list_all (val_ge L) vs2" and "new_closed L h1 h'" by auto
  with v1 cl1 res show ?case by (auto intro: new_closed_trans)
qed (auto simp: val_ge_def new_closed_refl)

lemma reachable_ge:
  assumes "reachable h v b"
      and "val_ge L v"
      and "\<forall>a. L \<le> a \<and> a < length h \<longrightarrow> list_all (val_ge L) (obj_vals (h ! a))"
  shows "L \<le> b"
  using assms
proof (induction rule: reachable.induct)
  case (map_here a h)
  then show ?case by (simp add: val_ge_def)
next
  case (slice_here a h)
  then show ?case by (simp add: val_ge_def)
next
  case (map_below a h v b)
  then have "L \<le> a" by (simp add: val_ge_def)
  with map_below have "val_ge L v" by (auto simp: list_all_iff)
  with map_below show ?case by simp
next
  case (slice_below a h v b)
  then have "L \<le> a" by (simp add: val_ge_def)
  with slice_below have "val_ge L v" by (auto simp: list_all_iff)
  with slice_below show ?case by simp
qed

lemma deepCopy_isolating:
  assumes x: "readout d h x = Some t"
  shows "\<exists>x' h'. deepCopy d h x = Some (x', h')
           \<and> readout d h' x' = Some t
           \<and> readout d h' x = Some t
           \<and> (\<forall>a obj. reachable h' x' a \<longrightarrow> length h \<le> a \<and> readout d (h'[a := obj]) x = Some t)"
proof -
  from deepCopy_readout(1)[OF x] obtain x' h' where c: "deepCopy d h x = Some (x', h')"
    and r: "readout d h' x' = Some t" by blast
  from deepCopy_closed(1)[OF c order_refl] have v: "val_ge (length h) x'"
    and cl: "new_closed (length h) h h'" by auto
  from cl obtain new where e: "h' = h @ new" by (auto simp: new_closed_def)
  have orig: "readout d h' x = Some t"
    using readout_frame(1)[OF x] frame_append e by blast
  have iso: "reachable h' x' a \<Longrightarrow> length h \<le> a \<and> readout d (h'[a := obj]) x = Some t" for a obj
  proof -
    assume ra: "reachable h' x' a"
    from reachable_ge[OF ra v] cl have ge: "length h \<le> a" by (auto simp: new_closed_def)
    have "length h \<le> length (h'[a := obj])" using e by simp
    moreover have "\<forall>b < length h. (h'[a := obj]) ! b = h ! b"
      using ge e by (auto simp: nth_append nth_list_update)
    ultimately show ?thesis using readout_frame(1)[OF x] ge by blast
  qed
  from c r orig iso show ?thesis by blast
qed

lemma renderEntries_ge:
  "renderEntries f kvs = Some kvs' \<Longrightarrow> list_all (val_ge L) (map snd kvs) \<Longrightarrow>
     list_all (val_ge L) (map snd kvs')"
  by (induction kvs arbitrary: kvs')
     (auto simp: val_ge_def split: option.splits hval.splits)

lemma renderElems_ge:
  "renderElems f vs = Some vs' \<Longrightarrow> list_all (val_ge L) vs \<Longrightarrow> list_all (val_ge L) vs'"
  by (induction vs arbitrary: vs')
     (auto simp: val_ge_def split: option.splits hval.splits)

lemma region_closed_update:
  assumes "region_closed L h" and "list_all (val_ge L) (obj_vals obj)"
  shows "region_closed L (h[a := obj])"
  using assms by (cases "a < length h") (auto simp: region_closed_def nth_list_update)

lemma render_frame:
  "val_ge L v \<Longrightarrow> region_closed L h \<Longrightarrow>
     length (snd (renderInPlace f d h v)) = length h
     \<and> (\<forall>b < L. snd (renderInPlace f d h v) ! b = h ! b)
     \<and> region_closed L (snd (renderInPlace f d h v))"
  "list_all (val_ge L) vs \<Longrightarrow> region_closed L h \<Longrightarrow>
     length (snd (renderValues f d h vs)) = length h
     \<and> (\<forall>b < L. snd (renderValues f d h vs) ! b = h ! b)
     \<and> region_closed L (snd (renderValues f d h vs))"
proof (induction f d h v and f d h vs rule: renderInPlace_renderValues.induct)
  case (7 f d h a)
  show ?case
  proof (cases "a < length h")
    case False
    with "7.prems" show ?thesis by simp
  next
    case True
    show ?thesis
    proof (cases "h ! a")
      case (SliceObj vs)
      with True "7.prems" show ?thesis by simp
    next
      case (MapObj kvs)
      show ?thesis
      proof (cases "renderEntries f kvs")
        case None
        with True MapObj "7.prems" show ?thesis by simp
      next
        case (Some kvs')
        from "7.prems"(1) have ge: "L \<le> a" by (simp add: val_ge_def)
        with "7.prems"(2) True MapObj have "list_all (val_ge L) (map snd kvs)"
          by (auto simp: region_closed_def obj_vals_def)
        from renderEntries_ge[OF Some this] have vs: "list_all (val_ge L) (map snd kvs')" .
        have cl: "region_closed L (h[a := MapObj kvs'])"
          using "7.prems"(2) vs by (intro region_closed_update) (auto simp: obj_vals_def)
        from "7.IH"[OF True MapObj Some vs cl] ge True MapObj Some
        show ?thesis by (auto simp: nth_list_update)
      qed
    qed
  qed
next
  case (9 f d h a)
  show ?case
  proof (cases "a < length h")
    case False
    with "9.prems" show ?thesis by simp
  next
    case True
    show ?thesis
    proof (cases "h ! a")
      case (MapObj kvs)
      with True "9.prems" show ?thesis by simp
    next
      case (SliceObj vs)
      show ?thesis
      proof (cases "renderElems f vs")
        case None
        with True SliceObj "9.prems" show ?thesis by simp
      next
        case (Some vs')
        from "9.prems"(1) have ge: "L \<le> a" by (simp add: val_ge_def)
        with "9.prems"(2) True SliceObj have "list_all (val_ge L) vs"
          by (auto simp: region_closed_def obj_vals_def)
        from renderElems_ge[OF Some this] have vs: "list_all (val_ge L) vs'" .
        have cl: "region_closed L (h[a := SliceObj vs'])"
          using "9.prems"(2) vs by (intro region_closed_update) (auto simp: obj_vals_def)
        from "9.IH"[OF True SliceObj Some vs cl] ge True SliceObj Some
        show ?thesis by (auto simp: nth_list_update)
      qed
    qed
  qed
next
  case (11 f d h v vs)
  from "11.prems"(1) have v: "val_ge L v" and vs: "list_all (val_ge L) vs" by auto
  obtain ok h1 where r: "renderInPlace f d h v = (ok, h1)" by (cases "renderInPlace f d h v")
  from "11.IH"(1)[OF v "11.prems"(2)] r
  have 1: "length h1 = length h" "\<forall>b < L. h1 ! b = h ! b" "region_closed L h1" by auto
  show ?case
  proof (cases ok)
    case False
    with r 1 show ?thesis by simp
  next
    case True
    then have "ok = True" by simp
    from "11.IH"(2)[OF r[symmetric] this vs 1(3)] r True 1 show ?thesis by simp
  qed
qed auto

lemma executeResource_heap:
  "fst (snd (executeResource render applyResource d h template w)) =
     (case deepCopy d h template of
        None \<Rightarrow> h
      | Some (manifest, h1) \<Rightarrow> snd (renderInPlace render d h1 manifest))"
  by (auto simp: executeResource_def split: option.splits prod.splits bool.splits)

lemma executeResource_preserves:
  assumes x: "readout d h template = Some t"
  shows "readout d (fst (snd (executeResource render applyResource d h template w))) template = Some t"
proof -
  from deepCopy_readout(1)[OF x] obtain c h1 where c: "deepCopy d h template = Some (c, h1)"
    by blast
  from deepCopy_closed(1)[OF c order_refl] have v: "val_ge (length h) c"
    and cl: "new_closed (length h) h h1" by auto
  from cl obtain new where e: "h1 = h @ new" by (auto simp: new_closed_def)
  from cl have rc: "region_closed (length h) h1"
    by (auto simp: new_closed_def region_closed_def)
  let ?h2 = "snd (renderInPlace render d h1 c)"
  from render_frame(1)[OF v rc, of render d]
  have len: "length ?h2 = length h1" and same: "\<forall>b < length h. ?h2 ! b = h1 ! b" by auto
  have "length h \<le> length ?h2" using len e by simp
  moreover have "\<forall>b < length h. ?h2 ! b = h ! b" using same e by (simp add: nth_append)
  ultimately have "readout d ?h2 template = Some t" using readout_frame(1)[OF x] by blast
  then show ?thesis by (simp add: executeResource_heap c)
qed

text \<open>
  C9. For a value \<open>x\<close> that is a tree of depth at most 8 in the store, the deep copy
  succeeds; the copy denotes the same tree as \<open>x\<close>, and \<open>x\<close> still denotes it after the
  copy and after any write to any object of the copy, nested at any depth; the nil map
  is copied to the nil map; and after a resource step on the template \<open>x\<close>, which
  renders a deep copy in place, \<open>x\<close> denotes the tree it denoted before. The lemmas
  above give the same for every depth.
\<close>

theorem C9_deep_copy_isolating:
  assumes x: "readout 8 h x = Some t"
  shows "(\<exists>x' h'. deepCopy 8 h x = Some (x', h')
            \<and> readout 8 h' x' = Some t
            \<and> readout 8 h' x = Some t
            \<and> (\<forall>a obj. reachable h' x' a \<longrightarrow> readout 8 (h'[a := obj]) x = Some t))
         \<and> deepCopy 8 h HNilMap = Some (HNilMap, h)
         \<and> readout 8 (fst (snd (executeResource render applyResource 8 h x w))) x = Some t"
  using deepCopy_isolating[OF x] executeResource_preserves[OF x] by auto

theorem C9_witness:
  "readout 8 demo_heap (HMap 2) = Some demo_tree
   \<and> deepCopy 8 demo_heap (HMap 2) = Some (HMap 5, demo_copied)
   \<and> reachable demo_copied (HMap 5) 3
   \<and> readout 8 (demo_copied[3 := MapObj [(''value'', HString ''modified'')]]) (HMap 2) =
       Some demo_tree
   \<and> readout 8 (demo_copied[3 := MapObj [(''value'', HString ''modified'')]]) (HMap 5) =
       Some (TMap [(''level1'', TMap [(''level2'', TMap [(''value'', TString ''modified'')])]),
                   (''items'', TNilMap)])
   \<and> fst (executeResource demo_render (\<lambda>t w. (None, Suc w)) 8 demo_heap (HMap 2) (0::nat)) =
       Inr (TMap [(''level1'', TMap [(''level2'', TMap [(''value'', TString ''c-1'')])]),
                  (''items'', TNilMap)])
   \<and> readout 8 (fst (snd (executeResource demo_render (\<lambda>t w. (None, Suc w)) 8 demo_heap
                             (HMap 2) (0::nat)))) (HMap 2) = Some demo_tree"
proof -
  have x: "readout 8 demo_heap (HMap 2) = Some demo_tree"
    by (simp add: demo_heap_def demo_tree_def eval_nat_numeral)
  have c: "deepCopy 8 demo_heap (HMap 2) = Some (HMap 5, demo_copied)"
    by (simp add: demo_heap_def demo_copied_def eval_nat_numeral)
  have r3: "reachable demo_copied (HMap 3) 3"
    by (rule reachable.map_here) (simp add: demo_copied_def)
  have r4: "reachable demo_copied (HMap 4) 3"
    by (rule reachable.map_below[where v = "HMap 3", OF _ _ r3])
       (simp_all add: demo_copied_def obj_vals_def)
  have r5: "reachable demo_copied (HMap 5) 3"
    by (rule reachable.map_below[where v = "HMap 4", OF _ _ r4])
       (simp_all add: demo_copied_def obj_vals_def)
  have m: "readout 8 (demo_copied[3 := MapObj [(''value'', HString ''modified'')]]) (HMap 5) =
       Some (TMap [(''level1'', TMap [(''level2'', TMap [(''value'', TString ''modified'')])]),
                   (''items'', TNilMap)])"
    by (simp add: demo_copied_def eval_nat_numeral)
  have e: "fst (executeResource demo_render (\<lambda>t w. (None, Suc w)) 8 demo_heap (HMap 2) (0::nat)) =
       Inr (TMap [(''level1'', TMap [(''level2'', TMap [(''value'', TString ''c-1'')])]),
                  (''items'', TNilMap)])"
    by (simp add: executeResource_def demo_heap_def demo_render_def eval_nat_numeral)
  from C9_deep_copy_isolating[OF x, of demo_render "\<lambda>t w. (None, Suc w)" "0::nat"] c r5
  have "readout 8 (demo_copied[3 := MapObj [(''value'', HString ''modified'')]]) (HMap 2) =
          Some demo_tree"
    and "readout 8 (fst (snd (executeResource demo_render (\<lambda>t w. (None, Suc w)) 8 demo_heap
                             (HMap 2) (0::nat)))) (HMap 2) = Some demo_tree"
    by auto
  with x c r5 m e show ?thesis by simp
qed

end
